theory Spec2Isabelle
  imports Main
begin

section \<open>Data model\<close>

text \<open>
  The Django models of the order, loyalty and notification applications, as records.
  A \<^verbatim>\<open>DecimalField(decimal_places=2)\<close> amount is an integer number of hundredths;
  a timestamp is a natural number; a foreign key is the primary key of the row it refers
  to. The primary key of an instance is \<open>None\<close> until its first save. Fields that no
  function below reads or writes (names, phone numbers, addresses) are left out.
  Where two models share a field name the later record prefixes it.
\<close>

type_synonym money = int
type_synonym timestamp = nat

datatype error = IntegrityError | DoesNotExist | Http404 | DatabaseError | PermissionDenied

record Order =
  order_pk :: "nat option"
  customer :: nat
  shop :: nat
  order_number :: string
  status :: string
  estimated_completion :: "timestamp option"
  confirmed_at :: "timestamp option"
  completed_at :: "timestamp option"
  subtotal :: money
  total_amount :: money

record ServicePrice =
  sp_pk :: nat
  sp_shop :: nat
  price :: money

record OrderItem =
  item_pk :: "nat option"
  item_order :: nat
  service_price :: nat
  quantity :: nat
  unit_price :: "money option"
  total_price :: money
  item_notes :: "string option"

record OrderStatusHistory =
  h_order :: nat
  h_status :: string
  changed_by :: nat
  changed_at :: timestamp
  h_notes :: string

record CustomerProfile =
  cp_user :: nat
  loyalty_points :: int
  membership_tier :: string
  total_spent :: money
  total_orders :: int

record LoyaltyTransaction =
  lt_customer :: nat
  lt_type :: string
  points :: int
  description :: string

type_synonym context_data = "(string \<times> string) list"

record NotificationTemplate =
  nt_name :: string
  nt_type :: string
  title_template :: string
  message_template :: string
  nt_priority :: string
  is_active :: bool

record NotificationPreference =
  np_user :: nat
  order_notifications :: bool
  loyalty_notifications :: bool
  promotion_notifications :: bool
  reminder_notifications :: bool
  system_notifications :: bool
  daily_digest :: bool
  immediate_notifications :: bool

record Notification =
  n_pk :: "nat option"
  recipient :: nat
  title :: string
  message :: string
  priority :: string
  n_status :: string
  n_order :: "nat option"
  n_shop :: "nat option"
  n_template :: "string option"
  n_data :: context_data
  expires_at :: "timestamp option"

record NotificationBatch =
  b_pk :: "nat option"
  b_template :: string
  b_title :: string
  b_message :: string
  target_users :: "nat list"
  target_shop :: "nat option"
  is_sent :: bool
  sent_count :: int
  failed_count :: int
  created_by :: nat
  sent_at :: "timestamp option"

text \<open>
  The database: one list of rows per table. \<open>users\<close> holds the primary keys of the
  existing users. A template is referred to by its unique name.
\<close>

record db =
  users :: "nat list"
  orders :: "Order list"
  service_prices :: "ServicePrice list"
  order_items :: "OrderItem list"
  status_history :: "OrderStatusHistory list"
  customer_profiles :: "CustomerProfile list"
  loyalty_transactions :: "LoyaltyTransaction list"
  notification_templates :: "NotificationTemplate list"
  notification_preferences :: "NotificationPreference list"
  notifications :: "Notification list"
  notification_batches :: "NotificationBatch list"

text \<open>
  What the outside world returns during one call: \<open>time_us\<close> is
  \<^verbatim>\<open>int(time.time() * 1000000)\<close>, \<open>randint\<close> the value of
  \<^verbatim>\<open>random.randint(10, 99)\<close>, \<open>now\<close> the value of \<^verbatim>\<open>timezone.now()\<close>.
\<close>

record env =
  time_us :: nat
  randint :: nat
  now :: timestamp

section \<open>Orders\<close>

subsection \<open>Order numbers and \<^verbatim>\<open>Order.save\<close>\<close>

text \<open>Python's \<^verbatim>\<open>str\<close> of a non-negative integer: its decimal digits.\<close>

definition digit_char :: "nat \<Rightarrow> char" where
  "digit_char n = ''0123456789'' ! n"

fun str_nat :: "nat \<Rightarrow> string" where
  "str_nat n = (if n < 10 then [digit_char n] else str_nat (n div 10) @ [digit_char (n mod 10)])"

declare str_nat.simps [simp del]


text \<open>Python's \<^verbatim>\<open>s[-10:]\<close>: the last ten characters, or all of a shorter string.\<close>

definition last10 :: "string \<Rightarrow> string" where
  "last10 s = drop (length s - 10) s"

definition generate_order_number :: "nat \<Rightarrow> env \<Rightarrow> string" where
  "generate_order_number shop_id e =
     str_nat shop_id @ last10 (str_nat (time_us e)) @ str_nat (randint e)"

definition next_pk :: "nat option list \<Rightarrow> nat" where
  "next_pk ks = Suc (fold max (map (\<lambda>k. case k of None \<Rightarrow> 0 | Some n \<Rightarrow> n) ks) 0)"

text \<open>
  \<^verbatim>\<open>super().save()\<close> of an order: the column \<open>order_number\<close> is declared
  \<^verbatim>\<open>unique=True\<close>, so writing a number that another row holds raises IntegrityError
  (as \<^verbatim>\<open>test_order_duplicate_order_number_constraint\<close> expects). An instance without a
  primary key is inserted under a new one; one with a primary key overwrites its row.
\<close>

definition orders_save :: "db \<Rightarrow> Order \<Rightarrow> error + (db \<times> Order)" where
  "orders_save d self =
     (if list_ex (\<lambda>r. order_number r = order_number self \<and> order_pk r \<noteq> order_pk self) (orders d)
      then Inl IntegrityError
      else (case order_pk self of
              None \<Rightarrow>
                (let self' = self\<lparr>order_pk := Some (next_pk (map order_pk (orders d)))\<rparr>
                 in Inr (d\<lparr>orders := orders d @ [self']\<rparr>, self'))
            | Some k \<Rightarrow>
                (if list_ex (\<lambda>r. order_pk r = Some k) (orders d)
                 then Inr (d\<lparr>orders := map (\<lambda>r. if order_pk r = Some k then self else r) (orders d)\<rparr>, self)
                 else Inr (d\<lparr>orders := orders d @ [self]\<rparr>, self))))"

definition Order_save :: "env \<Rightarrow> db \<Rightarrow> Order \<Rightarrow> error + (db \<times> Order)" where
  "Order_save e d self =
     orders_save d
       (if order_number self = []
        then self\<lparr>order_number := generate_order_number (shop self) e\<rparr>
        else self)"

subsection \<open>\<^verbatim>\<open>Order.calculate_total\<close> and \<^verbatim>\<open>OrderItem.save\<close>\<close>

definition get_order :: "db \<Rightarrow> nat \<Rightarrow> Order option" where
  "get_order d k = find (\<lambda>r. order_pk r = Some k) (orders d)"

definition get_service_price :: "db \<Rightarrow> nat \<Rightarrow> ServicePrice option" where
  "get_service_price d k = find (\<lambda>r. sp_pk r = k) (service_prices d)"

text \<open>\<^verbatim>\<open>self.items.all()\<close>: the item rows whose foreign key is this order.\<close>

definition items_all :: "db \<Rightarrow> Order \<Rightarrow> OrderItem list" where
  "items_all d self = filter (\<lambda>i. Some (item_order i) = order_pk self) (order_items d)"

definition calculate_total :: "env \<Rightarrow> db \<Rightarrow> Order \<Rightarrow> error + (db \<times> Order)" where
  "calculate_total e d self =
     (let s = sum_list (map total_price (items_all d self))
      in Order_save e d (self\<lparr>subtotal := s, total_amount := s\<rparr>))"

text \<open>
  \<^verbatim>\<open>super().save()\<close> of an item: insert under a new primary key, or overwrite the row.
\<close>

definition order_items_save :: "db \<Rightarrow> OrderItem \<Rightarrow> db \<times> OrderItem" where
  "order_items_save d self =
     (case item_pk self of
        None \<Rightarrow>
          (let self' = self\<lparr>item_pk := Some (next_pk (map item_pk (order_items d)))\<rparr>
           in (d\<lparr>order_items := order_items d @ [self']\<rparr>, self'))
      | Some k \<Rightarrow>
          (if list_ex (\<lambda>r. item_pk r = Some k) (order_items d)
           then (d\<lparr>order_items := map (\<lambda>r. if item_pk r = Some k then self else r) (order_items d)\<rparr>, self)
           else (d\<lparr>order_items := order_items d @ [self]\<rparr>, self)))"

text \<open>
  Python's \<^verbatim>\<open>not self.unit_price\<close> holds for \<^verbatim>\<open>None\<close> and for a zero Decimal.
\<close>

definition falsy_price :: "money option \<Rightarrow> bool" where
  "falsy_price p = (case p of None \<Rightarrow> True | Some v \<Rightarrow> v = 0)"

text \<open>
  \<^verbatim>\<open>OrderItem.save\<close>. The related rows \<^verbatim>\<open>self.service_price\<close> and \<^verbatim>\<open>self.order\<close>
  are read from the database through their foreign keys; a missing row raises
  DoesNotExist. The service price is only read when the unit price is falsy. The
  database's own checks of an item row (that the referenced rows exist when they are not
  read, and the digit bounds of the decimal columns) are not modelled: the function
  succeeds on every input on which the code does, and what is proved of it is proved of
  the saves that succeed.
\<close>

definition OrderItem_save :: "env \<Rightarrow> db \<Rightarrow> OrderItem \<Rightarrow> error + (db \<times> OrderItem)" where
  "OrderItem_save e d self =
     (case (if falsy_price (unit_price self)
            then (case get_service_price d (service_price self) of
                    None \<Rightarrow> Inl DoesNotExist
                  | Some sp \<Rightarrow> Inr (price sp))
            else (case unit_price self of
                    None \<Rightarrow> Inl DoesNotExist
                  | Some v \<Rightarrow> Inr v)) of
        Inl err \<Rightarrow> Inl err
      | Inr up \<Rightarrow>
          (let self1 = self\<lparr>unit_price := Some up, total_price := up * int (quantity self)\<rparr>;
               (d1, self2) = order_items_save d self1
           in (case get_order d1 (item_order self2) of
                 None \<Rightarrow> Inl DoesNotExist
               | Some ord \<Rightarrow>
                   (case calculate_total e d1 ord of
                      Inl err \<Rightarrow> Inl err
                    | Inr (d2, ord') \<Rightarrow> Inr (d2, self2)))))"

text \<open>\<^verbatim>\<open>item.delete()\<close>: the rows with this primary key are removed.\<close>

definition OrderItem_delete :: "db \<Rightarrow> OrderItem \<Rightarrow> db" where
  "OrderItem_delete d item = d\<lparr>order_items := filter (\<lambda>r. item_pk r \<noteq> item_pk item) (order_items d)\<rparr>"

text \<open>
  \<^verbatim>\<open>OrderItem.objects.create(order=..., service_price=..., quantity=..., unit_price=...)\<close>:
  a new instance is built and saved. \<open>up\<close> is \<open>None\<close> when no unit price is passed.
\<close>

definition OrderItem_create ::
  "env \<Rightarrow> db \<Rightarrow> nat \<Rightarrow> nat \<Rightarrow> nat \<Rightarrow> money option \<Rightarrow> string option \<Rightarrow> error + (db \<times> OrderItem)" where
  "OrderItem_create e d oid sp q up nt =
     OrderItem_save e d
       \<lparr>item_pk = None, item_order = oid, service_price = sp, quantity = q,
        unit_price = up, total_price = 0, item_notes = nt\<rparr>"

subsection \<open>Adding and removing items\<close>

text \<open>
  The two mutations of \<^verbatim>\<open>orders/views.py\<close>, after the order has been looked up:
  \<^verbatim>\<open>serializer.save(order=order); order.calculate_total()\<close> and
  \<^verbatim>\<open>item = get_object_or_404(OrderItem, id=item_id, order=order); item.delete();
  order.calculate_total()\<close>.
\<close>

definition order_add_item ::
  "env \<Rightarrow> db \<Rightarrow> Order \<Rightarrow> nat \<Rightarrow> nat \<Rightarrow> money option \<Rightarrow> string option \<Rightarrow> error + (db \<times> OrderItem)" where
  "order_add_item e d ord sp q up nt =
     (case order_pk ord of
        None \<Rightarrow> Inl DoesNotExist
      | Some oid \<Rightarrow>
          (case OrderItem_create e d oid sp q up nt of
             Inl err \<Rightarrow> Inl err
           | Inr (d1, item) \<Rightarrow>
               (case calculate_total e d1 ord of
                  Inl err \<Rightarrow> Inl err
                | Inr (d2, ord') \<Rightarrow> Inr (d2, item))))"

definition order_remove_item :: "env \<Rightarrow> db \<Rightarrow> Order \<Rightarrow> nat \<Rightarrow> error + db" where
  "order_remove_item e d ord item_id =
     (case find (\<lambda>r. item_pk r = Some item_id \<and> Some (item_order r) = order_pk ord) (order_items d) of
        None \<Rightarrow> Inl Http404
      | Some item \<Rightarrow>
          (case calculate_total e (OrderItem_delete d item) ord of
             Inl err \<Rightarrow> Inl err
           | Inr (d2, ord') \<Rightarrow> Inr d2))"

text \<open>
  A sequence of mutations, each on the order it names, looked up afresh as every request
  does. An exception ends the sequence.
\<close>

datatype item_op = AddItem nat nat "money option" | RemoveItem nat

definition apply_item_op :: "env \<Rightarrow> db \<Rightarrow> nat \<Rightarrow> item_op \<Rightarrow> error + db" where
  "apply_item_op e d oid opr =
     (case get_order d oid of
        None \<Rightarrow> Inl Http404
      | Some ord \<Rightarrow>
          (case opr of
             AddItem sp q up \<Rightarrow>
               (case order_add_item e d ord sp q up None of
                  Inl err \<Rightarrow> Inl err
                | Inr (d', item) \<Rightarrow> Inr d')
           | RemoveItem k \<Rightarrow> order_remove_item e d ord k))"

fun apply_item_ops :: "db \<Rightarrow> (env \<times> nat \<times> item_op) list \<Rightarrow> error + db" where
  "apply_item_ops d [] = Inr d"
| "apply_item_ops d ((e, oid, opr) # rest) =
     (case apply_item_op e d oid opr of
        Inl err \<Rightarrow> Inl err
      | Inr d' \<Rightarrow> apply_item_ops d' rest)"

text \<open>
  The total invariant of one order: it is stored, and its two totals are the sum of the
  \<open>total_price\<close> of its current items.
\<close>

definition totals_consistent :: "db \<Rightarrow> nat \<Rightarrow> bool" where
  "totals_consistent d oid =
     (case get_order d oid of
        None \<Rightarrow> False
      | Some ord \<Rightarrow>
          total_amount ord = subtotal ord \<and>
          subtotal ord = sum_list (map total_price (items_all d ord)))"

subsection \<open>The item views of \<^verbatim>\<open>orders/views.py\<close>\<close>

text \<open>
  The authenticated user of a request: \<open>user_shop\<close> is the shop the user owns and
  \<open>staff_shop\<close> the shop of the user's staff profile, when
  \<^verbatim>\<open>hasattr(user, 'shop')\<close> and \<^verbatim>\<open>hasattr(user, 'staff_profile')\<close> hold;
  \<open>staff_active\<close> and \<open>can_update_orders\<close> are the flags of that staff profile.
\<close>

record User =
  user_pk :: nat
  role :: string
  user_shop :: "nat option"
  staff_shop :: "nat option"
  staff_active :: bool
  can_update_orders :: bool

datatype body =
    ErrorBody string
  | MessageBody string
  | FieldErrors "string list"
  | ItemBody OrderItem
  | OrderBody Order
  | RedeemBody string int

datatype response = Response body nat

text \<open>
  The role-dependent lookup that opens both views;
  \<^verbatim>\<open>get_object_or_404\<close> raises Http404 when no row matches.
\<close>

definition lookup_order :: "db \<Rightarrow> User \<Rightarrow> nat \<Rightarrow> Order option" where
  "lookup_order d user order_id =
     (if role user = ''shop_owner'' \<and> user_shop user \<noteq> None
      then find (\<lambda>r. order_pk r = Some order_id \<and> Some (shop r) = user_shop user) (orders d)
      else if role user = ''staff'' \<and> staff_shop user \<noteq> None
      then find (\<lambda>r. order_pk r = Some order_id \<and> Some (shop r) = staff_shop user) (orders d)
      else find (\<lambda>r. order_pk r = Some order_id \<and> customer r = user_pk user) (orders d))"

record item_data =
  service_price_id :: nat
  data_quantity :: nat
  data_notes :: "string option"

text \<open>\<^verbatim>\<open>OrderItemSerializer.validate_service_price_id\<close>; the empty list means valid.\<close>

definition validate_service_price_id :: "db \<Rightarrow> User \<Rightarrow> nat \<Rightarrow> string list" where
  "validate_service_price_id d user v =
     (case get_service_price d v of
        None \<Rightarrow> [''Service price not found'']
      | Some sp \<Rightarrow>
          (if user_shop user \<noteq> None \<and> Some (sp_shop sp) \<noteq> user_shop user
           then [''Service price does not belong to your shop'']
           else []))"

definition add_order_item :: "env \<Rightarrow> db \<Rightarrow> User \<Rightarrow> nat \<Rightarrow> item_data \<Rightarrow> error + (db \<times> response)" where
  "add_order_item e d user order_id dat =
     (case lookup_order d user order_id of
        None \<Rightarrow> Inl Http404
      | Some ord \<Rightarrow>
          (if status ord \<notin> set [''received'']
           then Inr (d, Response (ErrorBody ''Cannot add items to orders that are in progress or completed'') 400)
           else (case validate_service_price_id d user (service_price_id dat) of
                   [] \<Rightarrow>
                     (case order_add_item e d ord (service_price_id dat) (data_quantity dat) None (data_notes dat) of
                        Inl err \<Rightarrow> Inl err
                      | Inr (d', item) \<Rightarrow> Inr (d', Response (ItemBody item) 201))
                 | errs \<Rightarrow> Inr (d, Response (FieldErrors errs) 400))))"

definition remove_order_item :: "env \<Rightarrow> db \<Rightarrow> User \<Rightarrow> nat \<Rightarrow> nat \<Rightarrow> error + (db \<times> response)" where
  "remove_order_item e d user order_id item_id =
     (case lookup_order d user order_id of
        None \<Rightarrow> Inl Http404
      | Some ord \<Rightarrow>
          (if status ord \<notin> set [''received'']
           then Inr (d, Response (ErrorBody ''Cannot remove items from orders that are in progress or completed'') 400)
           else (case order_remove_item e d ord item_id of
                   Inl err \<Rightarrow> Inl err
                 | Inr d' \<Rightarrow> Inr (d', Response (MessageBody ''Item removed successfully'') 204))))"

subsection \<open>\<^verbatim>\<open>OrderStatusUpdateSerializer\<close>\<close>

definition STATUS_CHOICES :: "string list" where
  "STATUS_CHOICES = [''pending'', ''confirmed'', ''in_progress'', ''ready'', ''completed'', ''cancelled'']"

text \<open>
  The validated data of a status update: a key that the request does not carry is
  \<open>None\<close>.
\<close>

record status_data =
  new_status :: "string option"
  new_notes :: "string option"
  new_estimated_completion :: "timestamp option option"

text \<open>
  \<^verbatim>\<open>super().update(instance, validated_data)\<close> of a model serializer: each key present
  is set on the instance, which is then saved.
\<close>

definition serializer_update :: "env \<Rightarrow> db \<Rightarrow> Order \<Rightarrow> status_data \<Rightarrow> error + (db \<times> Order)" where
  "serializer_update e d instance v =
     (let i1 = (case new_status v of None \<Rightarrow> instance | Some s \<Rightarrow> instance\<lparr>status := s\<rparr>);
          i2 = (case new_estimated_completion v of None \<Rightarrow> i1 | Some t \<Rightarrow> i1\<lparr>estimated_completion := t\<rparr>)
      in Order_save e d i2)"

definition update :: "env \<Rightarrow> db \<Rightarrow> nat \<Rightarrow> Order \<Rightarrow> status_data \<Rightarrow> error + (db \<times> Order)" where
  "update e d request_user instance validated_data =
     (let nts = (case new_notes validated_data of None \<Rightarrow> [] | Some n \<Rightarrow> n);
          old_status = status instance;
          new_st = (case new_status validated_data of None \<Rightarrow> old_status | Some s \<Rightarrow> s)
      in (case serializer_update e d instance validated_data of
            Inl err \<Rightarrow> Inl err
          | Inr (d1, inst1) \<Rightarrow>
              (if old_status \<noteq> new_st
               then (case order_pk inst1 of
                       None \<Rightarrow> Inl IntegrityError
                     | Some oid \<Rightarrow>
                         (let d2 = d1\<lparr>status_history := status_history d1 @
                                     [\<lparr>h_order = oid, h_status = new_st, changed_by = request_user,
                                       changed_at = now e, h_notes = nts\<rparr>]\<rparr>;
                              inst2 = (if new_st = ''confirmed'' then inst1\<lparr>confirmed_at := Some (now e)\<rparr>
                                       else if new_st = ''completed'' then inst1\<lparr>completed_at := Some (now e)\<rparr>
                                       else inst1)
                          in Order_save e d2 inst2))
               else Inr (d1, inst1))))"

text \<open>
  \<^verbatim>\<open>CanUpdateOrders.has_permission\<close> of \<^verbatim>\<open>core/permissions.py\<close>, for an authenticated
  user.
\<close>

definition CanUpdateOrders :: "User \<Rightarrow> bool" where
  "CanUpdateOrders user =
     (if role user = ''shop_owner'' \<and> user_shop user \<noteq> None then True
      else if role user = ''staff'' \<and> staff_shop user \<noteq> None \<and> staff_active user
              \<and> can_update_orders user then True
      else False)"

text \<open>
  \<^verbatim>\<open>OrderStatusUpdateView\<close>: the permission class is checked first (a refusal is the
  exception PermissionDenied, answered 403), the queryset admits the orders of the
  owner's or the staff member's shop, the serializer's \<open>status\<close> field admits the
  model's choices (a choice field built by the framework from \<^verbatim>\<open>STATUS_CHOICES\<close>), then
  \<open>update\<close> runs.
\<close>

definition status_update_view :: "env \<Rightarrow> db \<Rightarrow> User \<Rightarrow> nat \<Rightarrow> status_data \<Rightarrow> error + (db \<times> response)" where
  "status_update_view e d user order_id v =
     (if \<not> CanUpdateOrders user then Inl PermissionDenied
      else
       (case (if role user = ''shop_owner'' \<and> user_shop user \<noteq> None
              then find (\<lambda>r. order_pk r = Some order_id \<and> Some (shop r) = user_shop user) (orders d)
              else if role user = ''staff'' \<and> staff_shop user \<noteq> None
              then find (\<lambda>r. order_pk r = Some order_id \<and> Some (shop r) = staff_shop user) (orders d)
              else None) of
          None \<Rightarrow> Inl Http404
        | Some ord \<Rightarrow>
            (case new_status v of
               None \<Rightarrow>
                 (case update e d (user_pk user) ord v of
                    Inl err \<Rightarrow> Inl err
                  | Inr (d', ord') \<Rightarrow> Inr (d', Response (OrderBody ord') 200))
             | Some s \<Rightarrow>
                 (if s \<notin> set STATUS_CHOICES
                  then Inr (d, Response (FieldErrors [''status: not a valid choice'']) 400)
                  else (case update e d (user_pk user) ord v of
                          Inl err \<Rightarrow> Inl err
                        | Inr (d', ord') \<Rightarrow> Inr (d', Response (OrderBody ord') 200))))))"

section \<open>Loyalty points\<close>

definition get_profile :: "db \<Rightarrow> nat \<Rightarrow> CustomerProfile option" where
  "get_profile d u = find (\<lambda>p. cp_user p = u) (customer_profiles d)"

text \<open>
  \<^verbatim>\<open>self.save(update_fields=['loyalty_points'])\<close>: only that column of the profile's row
  is written; Django raises DatabaseError when no row was updated. The profile is
  one-to-one with its user, so the user identifies the row.
\<close>

definition save_loyalty_points :: "db \<Rightarrow> CustomerProfile \<Rightarrow> error + db" where
  "save_loyalty_points d self =
     (if list_ex (\<lambda>p. cp_user p = cp_user self) (customer_profiles d)
      then Inr (d\<lparr>customer_profiles :=
                   map (\<lambda>p. if cp_user p = cp_user self then p\<lparr>loyalty_points := loyalty_points self\<rparr> else p)
                     (customer_profiles d)\<rparr>)
      else Inl DatabaseError)"

definition add_loyalty_points :: "db \<Rightarrow> CustomerProfile \<Rightarrow> int \<Rightarrow> string \<Rightarrow> error + (db \<times> CustomerProfile)" where
  "add_loyalty_points d self pts descr =
     (let self' = self\<lparr>loyalty_points := loyalty_points self + pts\<rparr>
      in (case save_loyalty_points d self' of
            Inl err \<Rightarrow> Inl err
          | Inr d1 \<Rightarrow>
              Inr (d1\<lparr>loyalty_transactions := loyalty_transactions d1 @
                        [\<lparr>lt_customer = cp_user self', lt_type = ''earned'', points = pts, description = descr\<rparr>]\<rparr>,
                   self')))"

definition redeem_loyalty_points ::
  "db \<Rightarrow> CustomerProfile \<Rightarrow> int \<Rightarrow> string \<Rightarrow> error + (db \<times> CustomerProfile \<times> bool)" where
  "redeem_loyalty_points d self pts descr =
     (if loyalty_points self \<ge> pts
      then (let self' = self\<lparr>loyalty_points := loyalty_points self - pts\<rparr>
            in (case save_loyalty_points d self' of
                  Inl err \<Rightarrow> Inl err
                | Inr d1 \<Rightarrow>
                    Inr (d1\<lparr>loyalty_transactions := loyalty_transactions d1 @
                              [\<lparr>lt_customer = cp_user self', lt_type = ''redeemed'', points = - pts,
                                description = descr\<rparr>]\<rparr>,
                         self', True)))
      else Inr (d, self, False))"

definition update_membership_tier :: "db \<Rightarrow> CustomerProfile \<Rightarrow> error + (db \<times> CustomerProfile)" where
  "update_membership_tier d self =
     (let self' = self\<lparr>membership_tier :=
                    (if total_spent self \<ge> 100000 then ''platinum''
                     else if total_spent self \<ge> 50000 then ''gold''
                     else if total_spent self \<ge> 20000 then ''silver''
                     else ''bronze'')\<rparr>
      in (if list_ex (\<lambda>p. cp_user p = cp_user self) (customer_profiles d)
          then Inr (d\<lparr>customer_profiles :=
                       map (\<lambda>p. if cp_user p = cp_user self then p\<lparr>membership_tier := membership_tier self'\<rparr> else p)
                         (customer_profiles d)\<rparr>, self')
          else Inl DatabaseError))"



text \<open>
  Sequences of earn and redeem calls, each on the profile of the user it names, read
  afresh from the database. An exception ends the sequence.
\<close>

datatype loyalty_op = Earn int | Redeem int

definition apply_loyalty_op :: "db \<Rightarrow> nat \<Rightarrow> loyalty_op \<Rightarrow> error + db" where
  "apply_loyalty_op d u opr =
     (case get_profile d u of
        None \<Rightarrow> Inl DoesNotExist
      | Some profile \<Rightarrow>
          (case opr of
             Earn n \<Rightarrow>
               (case add_loyalty_points d profile n ''Points earned'' of
                  Inl err \<Rightarrow> Inl err
                | Inr (d', profile') \<Rightarrow> Inr d')
           | Redeem n \<Rightarrow>
               (case redeem_loyalty_points d profile n ''Points redeemed'' of
                  Inl err \<Rightarrow> Inl err
                | Inr (d', profile', ok) \<Rightarrow> Inr d')))"

fun apply_loyalty_ops :: "db \<Rightarrow> (nat \<times> loyalty_op) list \<Rightarrow> error + db" where
  "apply_loyalty_ops d [] = Inr d"
| "apply_loyalty_ops d ((u, opr) # rest) =
     (case apply_loyalty_op d u opr of
        Inl err \<Rightarrow> Inl err
      | Inr d' \<Rightarrow> apply_loyalty_ops d' rest)"


text \<open>The ledger sum of a customer, and the cached balance agreeing with it.\<close>

definition ledger_sum :: "db \<Rightarrow> nat \<Rightarrow> int" where
  "ledger_sum d u = sum_list (map points (filter (\<lambda>t. lt_customer t = u) (loyalty_transactions d)))"

definition balance_consistent :: "db \<Rightarrow> nat \<Rightarrow> bool" where
  "balance_consistent d u =
     (case get_profile d u of
        None \<Rightarrow> False
      | Some p \<Rightarrow> loyalty_points p = ledger_sum d u)"

section \<open>Notifications\<close>

text \<open>
  The two library functions that \<^verbatim>\<open>notifications/services.py\<close> imports are parameters:
  \<^verbatim>\<open>strip_tags\<close> of \<^verbatim>\<open>django.utils.html\<close> and the rendering of a template string
  against a context by \<^verbatim>\<open>django.template\<close>.
\<close>

record template_lib =
  strip_tags :: "string \<Rightarrow> string"
  render :: "string \<Rightarrow> context_data \<Rightarrow> string"

definition default_preference :: "nat \<Rightarrow> NotificationPreference" where
  "default_preference user =
     \<lparr>np_user = user, order_notifications = True, loyalty_notifications = True,
      promotion_notifications = True, reminder_notifications = True, system_notifications = True,
      daily_digest = False, immediate_notifications = True\<rparr>"

text \<open>
  \<^verbatim>\<open>get_user_preferences\<close> is a \<^verbatim>\<open>get_or_create\<close>: the row of the user, or a new row
  with the defaults. Of the constraints of the notification tables the foreign keys to
  the user table are modelled: a row for a user that does not exist raises
  IntegrityError.
\<close>

definition get_user_preferences :: "db \<Rightarrow> nat \<Rightarrow> error + (db \<times> NotificationPreference)" where
  "get_user_preferences d user =
     (case find (\<lambda>p. np_user p = user) (notification_preferences d) of
        Some prefs \<Rightarrow> Inr (d, prefs)
      | None \<Rightarrow>
          (if user \<in> set (users d)
           then Inr (d\<lparr>notification_preferences := notification_preferences d @ [default_preference user]\<rparr>,
                     default_preference user)
           else Inl IntegrityError))"

text \<open>\<^verbatim>\<open>type_mapping.get(notification_type, True)\<close> on the dictionary of the source.\<close>

definition should_send_notification :: "NotificationPreference \<Rightarrow> string \<Rightarrow> bool" where
  "should_send_notification prefs notification_type =
     (case map_of [(''order_status'', order_notifications prefs),
                   (''loyalty_points'', loyalty_notifications prefs),
                   (''promotion'', promotion_notifications prefs),
                   (''reminder'', reminder_notifications prefs),
                   (''system'', system_notifications prefs),
                   (''welcome'', True)] notification_type of
        None \<Rightarrow> True
      | Some b \<Rightarrow> b)"

text \<open>\<^verbatim>\<open>Notification.objects.create\<close>: the recipient must be an existing user.\<close>

definition notifications_create :: "db \<Rightarrow> Notification \<Rightarrow> error + (db \<times> Notification)" where
  "notifications_create d n =
     (if recipient n \<in> set (users d)
      then (let n' = n\<lparr>n_pk := Some (next_pk (map n_pk (notifications d)))\<rparr>
            in Inr (d\<lparr>notifications := notifications d @ [n']\<rparr>, n'))
      else Inl IntegrityError)"

text \<open>
  \<^verbatim>\<open>create_notification\<close>: the whole body is inside \<^verbatim>\<open>try\<close>, and
  \<^verbatim>\<open>except Exception\<close> returns None. What an earlier statement has written stays
  written.
\<close>

definition create_notification ::
  "template_lib \<Rightarrow> db \<Rightarrow> nat \<Rightarrow> string \<Rightarrow> string \<Rightarrow> string \<Rightarrow> nat option \<Rightarrow> nat option \<Rightarrow>
   NotificationTemplate option \<Rightarrow> context_data option \<Rightarrow> timestamp option \<Rightarrow> db \<times> Notification option" where
  "create_notification L d rcp ttl msg prio ord shp template dat expires =
     (case get_user_preferences d rcp of
        Inl err \<Rightarrow> (d, None)
      | Inr (d1, prefs) \<Rightarrow>
          (if (case template of None \<Rightarrow> False
               | Some t \<Rightarrow> \<not> should_send_notification prefs (nt_type t))
           then (d1, None)
           else (case notifications_create d1
                        \<lparr>n_pk = None, recipient = rcp, title = take 200 (strip_tags L ttl),
                         message = strip_tags L msg, priority = prio, n_status = ''unread'',
                         n_order = ord, n_shop = shp, n_template = map_option nt_name template,
                         n_data = (case dat of None \<Rightarrow> [] | Some c \<Rightarrow> c), expires_at = expires\<rparr> of
                   Inl err \<Rightarrow> (d1, None)
                 | Inr (d2, notification) \<Rightarrow> (d2, Some notification))))"

definition get_template :: "db \<Rightarrow> string \<Rightarrow> NotificationTemplate option" where
  "get_template d template_name =
     find (\<lambda>t. nt_name t = template_name \<and> is_active t) (notification_templates d)"

definition create_from_template ::
  "template_lib \<Rightarrow> db \<Rightarrow> string \<Rightarrow> nat \<Rightarrow> context_data \<Rightarrow> nat option \<Rightarrow> nat option \<Rightarrow>
   timestamp option \<Rightarrow> db \<times> Notification option" where
  "create_from_template L d template_name rcp context ord shp expires =
     (case get_template d template_name of
        None \<Rightarrow> (d, None)
      | Some template \<Rightarrow>
          create_notification L d rcp
            (render L (title_template template) context)
            (render L (message_template template) context)
            (nt_priority template) ord shp (Some template) (Some context) expires)"




text \<open>A recipient whose stored preferences switch the type of the template off.\<close>

definition gated :: "db \<Rightarrow> NotificationTemplate \<Rightarrow> nat \<Rightarrow> bool" where
  "gated d template user =
     (case find (\<lambda>p. np_user p = user) (notification_preferences d) of
        None \<Rightarrow> False
      | Some prefs \<Rightarrow> \<not> should_send_notification prefs (nt_type template))"

section \<open>Example data\<close>

text \<open>
  A shop with two service prices (15.99 and 25.50), an empty pending order and an in-progress
  order with one item and a customer with 50 points, used to run the functions on concrete inputs.
\<close>

text \<open>A template library for the examples: tags are not removed, placeholders not filled.\<close>

definition lib0 :: template_lib where
  "lib0 = \<lparr>strip_tags = (\<lambda>s. s), render = (\<lambda>t c. t)\<rparr>"

definition env0 :: env where
  "env0 = \<lparr>time_us = 1234567890123456, randint = 42, now = 1000\<rparr>"

definition order1 :: Order where
  "order1 = \<lparr>order_pk = Some 1, customer = 7, shop = 3, order_number = ''3000000000142'',
     status = ''pending'', estimated_completion = None, confirmed_at = None, completed_at = None,
     subtotal = 0, total_amount = 0\<rparr>"

definition order2 :: Order where
  "order2 = \<lparr>order_pk = Some 2, customer = 8, shop = 3, order_number = ''3000000000243'',
     status = ''in_progress'', estimated_completion = None, confirmed_at = Some 900, completed_at = None,
     subtotal = 10000, total_amount = 10000\<rparr>"

definition item_a :: OrderItem where
  "item_a = \<lparr>item_pk = Some 1, item_order = 2, service_price = 1, quantity = 4,
     unit_price = Some 2500, total_price = 10000, item_notes = None\<rparr>"

definition item_b :: OrderItem where
  "item_b = \<lparr>item_pk = Some 2, item_order = 1, service_price = 1, quantity = 2,
     unit_price = Some 1599, total_price = 3198, item_notes = None\<rparr>"

definition item_c :: OrderItem where
  "item_c = \<lparr>item_pk = Some 3, item_order = 1, service_price = 2, quantity = 1,
     unit_price = Some 2550, total_price = 2550, item_notes = None\<rparr>"

definition profile8 :: CustomerProfile where
  "profile8 = \<lparr>cp_user = 8, loyalty_points = 50, membership_tier = ''bronze'',
     total_spent = 15000, total_orders = 3\<rparr>"

definition txn0 :: LoyaltyTransaction where
  "txn0 = \<lparr>lt_customer = 8, lt_type = ''earned'', points = 50, description = ''Points earned''\<rparr>"

definition promo_template :: NotificationTemplate where
  "promo_template = \<lparr>nt_name = ''spring_sale'', nt_type = ''promotion'', title_template = ''Spring sale'',
     message_template = ''<b>20% off</b> this week'', nt_priority = ''low'', is_active = True\<rparr>"

definition welcome_template :: NotificationTemplate where
  "welcome_template = \<lparr>nt_name = ''welcome_user'', nt_type = ''welcome'', title_template = ''Welcome'',
     message_template = ''Welcome to the shop'', nt_priority = ''normal'', is_active = True\<rparr>"

text \<open>User 8 has switched every gated notification type off.\<close>

definition prefs8 :: NotificationPreference where
  "prefs8 = \<lparr>np_user = 8, order_notifications = False, loyalty_notifications = False,
     promotion_notifications = False, reminder_notifications = False, system_notifications = False,
     daily_digest = False, immediate_notifications = True\<rparr>"

definition db0 :: db where
  "db0 = \<lparr>users = [7, 8, 9], orders = [order1, order2],
     service_prices = [\<lparr>sp_pk = 1, sp_shop = 3, price = 1599\<rparr>, \<lparr>sp_pk = 2, sp_shop = 3, price = 2550\<rparr>],
     order_items = [item_a], status_history = [], customer_profiles = [profile8],
     loyalty_transactions = [txn0],
     notification_templates = [promo_template, welcome_template],
     notification_preferences = [prefs8], notifications = [], notification_batches = []\<rparr>"

definition db_loyalty :: "int \<Rightarrow> LoyaltyTransaction list \<Rightarrow> db" where
  "db_loyalty b ts = db0\<lparr>customer_profiles := [profile8\<lparr>loyalty_points := b\<rparr>],
     loyalty_transactions := txn0 # ts\<rparr>"

definition txn :: "string \<Rightarrow> int \<Rightarrow> LoyaltyTransaction" where
  "txn ty n = \<lparr>lt_customer = 8, lt_type = ty, points = n,
     description = (if ty = ''earned'' then ''Points earned'' else ''Points redeemed'')\<rparr>"

definition order1_with :: "money \<Rightarrow> Order" where
  "order1_with s = order1\<lparr>subtotal := s, total_amount := s\<rparr>"

definition db_items :: "money \<Rightarrow> OrderItem list \<Rightarrow> db" where
  "db_items s its = db0\<lparr>orders := [order1_with s, order2], order_items := item_a # its\<rparr>"

definition new_order :: Order where
  "new_order = \<lparr>order_pk = None, customer = 9, shop = 3, order_number = [],
     status = ''pending'', estimated_completion = None, confirmed_at = None, completed_at = None,
     subtotal = 0, total_amount = 0\<rparr>"

definition db_taken :: db where
  "db_taken = db0\<lparr>orders := [order1\<lparr>order_number := ''3789012345642''\<rparr>, order2]\<rparr>"

definition item_d :: OrderItem where
  "item_d = \<lparr>item_pk = Some 2, item_order = 1, service_price = 1, quantity = 1,
     unit_price = Some 2550, total_price = 2550, item_notes = None\<rparr>"

definition item_z :: "money \<Rightarrow> OrderItem" where
  "item_z u = \<lparr>item_pk = Some 2, item_order = 1, service_price = 1, quantity = 1,
     unit_price = Some u, total_price = u, item_notes = None\<rparr>"

definition user7 :: User where
  "user7 = \<lparr>user_pk = 7, role = ''customer'', user_shop = None, staff_shop = None,
     staff_active = False, can_update_orders = False\<rparr>"

definition owner9 :: User where
  "owner9 = \<lparr>user_pk = 9, role = ''shop_owner'', user_shop = Some 3, staff_shop = None,
     staff_active = False, can_update_orders = False\<rparr>"

definition to_completed :: status_data where
  "to_completed = \<lparr>new_status = Some ''completed'', new_notes = None, new_estimated_completion = None\<rparr>"

definition completed_row :: "nat \<Rightarrow> OrderStatusHistory" where
  "completed_row k = \<lparr>h_order = k, h_status = ''completed'', changed_by = 9, changed_at = 1000, h_notes = []\<rparr>"

definition order1_completed :: Order where
  "order1_completed = order1\<lparr>status := ''completed'', completed_at := Some 1000\<rparr>"

definition order2_completed :: Order where
  "order2_completed = order2\<lparr>status := ''completed'', completed_at := Some 1000\<rparr>"

section \<open>Proofs: order totals\<close>

lemma find_map_replace:
  "P self \<Longrightarrow> list_ex P xs \<Longrightarrow> find P (map (\<lambda>r. if P r then self else r) xs) = Some self"
  by (induction xs) auto

lemma find_append_new:
  "P self \<Longrightarrow> \<not> list_ex P xs \<Longrightarrow> find P (xs @ [self]) = Some self"
  by (induction xs) auto

lemma orders_save_pk:
  assumes "orders_save d self = Inr (d', self')" "order_pk self = Some k"
  shows "self' = self \<and> get_order d' k = Some self \<and> order_items d' = order_items d"
  using assms find_map_replace[of "\<lambda>r. order_pk r = Some k" self "orders d"]
    find_append_new[of "\<lambda>r. order_pk r = Some k" self "orders d"]
  by (auto simp: orders_save_def get_order_def split: if_splits)

lemma calculate_total_result:
  assumes "calculate_total e d ord = Inr (d', ord')" "order_pk ord = Some k"
  shows "get_order d' k = Some ord' \<and> order_items d' = order_items d \<and> order_pk ord' = Some k
       \<and> total_amount ord' = subtotal ord'
       \<and> subtotal ord' = sum_list (map total_price (items_all d' ord'))"
proof -
  let ?s = "sum_list (map total_price (items_all d ord))"
  let ?o1 = "ord\<lparr>subtotal := ?s, total_amount := ?s\<rparr>"
  let ?o2 = "if order_number ?o1 = [] then ?o1\<lparr>order_number := generate_order_number (shop ?o1) e\<rparr> else ?o1"
  have sv: "orders_save d ?o2 = Inr (d', ord')"
    using assms(1) by (simp add: calculate_total_def Order_save_def Let_def)
  have pk: "order_pk ?o2 = Some k" using assms(2) by simp
  from orders_save_pk[OF sv pk] have r: "ord' = ?o2" "get_order d' k = Some ?o2" "order_items d' = order_items d"
    by auto
  have "items_all d' ord' = items_all d ord"
    using r(1,3) assms(2) by (simp add: items_all_def)
  then show ?thesis using r assms(2) by simp
qed

lemma calculate_total_consistent:
  "calculate_total e d ord = Inr (d', ord') \<Longrightarrow> order_pk ord = Some k \<Longrightarrow> totals_consistent d' k"
  using calculate_total_result[of e d ord d' ord' k] by (simp add: totals_consistent_def)

lemma get_order_pk: "get_order d k = Some ord \<Longrightarrow> order_pk ord = Some k"
  by (auto simp: get_order_def dest: find_Some_iff[THEN iffD1])

lemma apply_item_op_consistent:
  "apply_item_op e d oid opr = Inr d' \<Longrightarrow> totals_consistent d' oid"
  by (auto simp: apply_item_op_def order_add_item_def order_remove_item_def
      split: option.splits item_op.splits sum.splits dest!: get_order_pk calculate_total_consistent)

lemma fold_max_ge: "a \<le> fold max xs (a::nat)"
  by (induction xs arbitrary: a) (auto intro: order_trans[OF max.cobounded2])

lemma fold_max_mem: "x \<in> set xs \<Longrightarrow> x \<le> fold max xs (a::nat)"
proof (induction xs arbitrary: a)
  case Nil then show ?case by simp
next
  case (Cons y ys)
  show ?case
  proof (cases "x = y")
    case True
    have "max y a \<le> fold max ys (max y a)" by (rule fold_max_ge)
    then show ?thesis using True by simp
  next
    case False
    then show ?thesis using Cons by simp
  qed
qed

lemma next_pk_fresh: "Some (next_pk ks) \<notin> set ks"
proof
  assume a: "Some (next_pk ks) \<in> set ks"
  let ?f = "\<lambda>k. case k of None \<Rightarrow> 0 | Some n \<Rightarrow> n"
  have "?f (Some (next_pk ks)) \<in> set (map ?f ks)" using a by (metis image_eqI set_map)
  then have "next_pk ks \<le> fold max (map ?f ks) 0" using fold_max_mem by fastforce
  then show False by (simp add: next_pk_def)
qed

lemma find_map_other:
  "\<not> P self \<Longrightarrow> (\<And>r. Q r \<Longrightarrow> \<not> P r) \<Longrightarrow> find P (map (\<lambda>r. if Q r then self else r) xs) = find P xs"
  by (induction xs) auto

lemma find_append_other: "\<not> P self \<Longrightarrow> find P (xs @ [self]) = find P xs"
  by (induction xs) auto

lemma orders_save_other:
  assumes "orders_save d self = Inr (d', self')" "order_pk self = Some oid" "k \<noteq> oid"
  shows "get_order d' k = get_order d k"
  using assms find_map_other[of "\<lambda>r. order_pk r = Some k" self "\<lambda>r. order_pk r = Some oid" "orders d"]
    find_append_other[of "\<lambda>r. order_pk r = Some k" self "orders d"]
  by (auto simp: orders_save_def get_order_def split: if_splits)

lemma calculate_total_other:
  assumes "calculate_total e d ord = Inr (d', ord')" "order_pk ord = Some oid" "k \<noteq> oid"
  shows "get_order d' k = get_order d k"
proof -
  let ?s = "sum_list (map total_price (items_all d ord))"
  let ?o1 = "ord\<lparr>subtotal := ?s, total_amount := ?s\<rparr>"
  let ?o2 = "if order_number ?o1 = [] then ?o1\<lparr>order_number := generate_order_number (shop ?o1) e\<rparr> else ?o1"
  have sv: "orders_save d ?o2 = Inr (d', ord')"
    using assms(1) by (simp add: calculate_total_def Order_save_def Let_def)
  have pk: "order_pk ?o2 = Some oid" using assms(2) by simp
  show ?thesis by (rule orders_save_other[OF sv pk assms(3)])
qed

lemma calculate_total_items:
  "calculate_total e d ord = Inr (d', ord') \<Longrightarrow> order_items d' = order_items d"
  by (auto simp: calculate_total_def Order_save_def orders_save_def Let_def split: if_splits option.splits)

lemma totals_consistent_cong:
  "get_order d' k = get_order d k \<Longrightarrow>
   filter (\<lambda>i. item_order i = k) (order_items d') = filter (\<lambda>i. item_order i = k) (order_items d) \<Longrightarrow>
   totals_consistent d k \<Longrightarrow> totals_consistent d' k"
  by (auto simp: totals_consistent_def items_all_def split: option.splits dest!: get_order_pk)

lemma OrderItem_create_items:
  assumes "OrderItem_create e d oid sp q up nt = Inr (d1, item)"
  shows "\<exists>it. order_items d1 = order_items d @ [it] \<and> item_order it = oid
           \<and> item_pk it \<notin> set (map item_pk (order_items d))"
    and "k \<noteq> oid \<Longrightarrow> get_order d1 k = get_order d k"
proof -
  let ?self = "\<lparr>item_pk = None, item_order = oid, service_price = sp, quantity = q,
        unit_price = up, total_price = 0, item_notes = nt\<rparr>"
  from assms obtain u dd ord ord' where
    s: "order_items_save d (?self\<lparr>unit_price := Some u, total_price := u * int q\<rparr>) = (dd, item)"
    and g: "get_order dd (item_order item) = Some ord"
    and c: "calculate_total e dd ord = Inr (d1, ord')"
    by (auto simp: OrderItem_create_def OrderItem_save_def Let_def split: sum.splits option.splits prod.splits if_splits)
  have dd: "order_items dd = order_items d @ [item]" "orders dd = orders d" "item_order item = oid"
    "item_pk item = Some (next_pk (map item_pk (order_items d)))"
    using s by (auto simp: order_items_save_def Let_def)
  have "order_items d1 = order_items dd" using c by (rule calculate_total_items)
  then show "\<exists>it. order_items d1 = order_items d @ [it] \<and> item_order it = oid
           \<and> item_pk it \<notin> set (map item_pk (order_items d))"
    using dd next_pk_fresh[of "map item_pk (order_items d)"] by auto
  assume k: "k \<noteq> oid"
  have "order_pk ord = Some oid" using g dd(3) by (auto dest: get_order_pk)
  from calculate_total_other[OF c this k] show "get_order d1 k = get_order d k"
    using dd(2) by (simp add: get_order_def)
qed

lemma filter_remove_other:
  assumes "distinct (map item_pk xs)" "find (\<lambda>r. item_pk r = Some i \<and> Some (item_order r) = Some oid) xs = Some item"
    "k \<noteq> oid"
  shows "filter (\<lambda>r. item_order r = k) (filter (\<lambda>r. item_pk r \<noteq> item_pk item) xs) = filter (\<lambda>r. item_order r = k) xs"
proof -
  have it: "item \<in> set xs" "item_order item = oid"
    using assms(2) by (auto simp: find_Some_iff)
  have "\<And>r. r \<in> set xs \<Longrightarrow> item_pk r = item_pk item \<Longrightarrow> r = item"
    using assms(1) it(1) by (meson distinct_map inj_onD)
  then have "\<And>r. r \<in> set xs \<Longrightarrow> item_order r = k \<Longrightarrow> item_pk r \<noteq> item_pk item"
    using it(2) assms(3) by auto
  then show ?thesis by (auto simp: filter_filter intro!: filter_cong)
qed

lemma apply_item_op_frame:
  assumes "apply_item_op e d oid opr = Inr d'" "distinct (map item_pk (order_items d))"
  shows "distinct (map item_pk (order_items d'))"
    and "k \<noteq> oid \<Longrightarrow> totals_consistent d k \<Longrightarrow> totals_consistent d' k"
proof -
  from assms(1) obtain ord where g: "get_order d oid = Some ord"
    by (auto simp: apply_item_op_def split: option.splits)
  then have pk: "order_pk ord = Some oid" by (rule get_order_pk)
  have "distinct (map item_pk (order_items d')) \<and>
        (k \<noteq> oid \<longrightarrow> get_order d' k = get_order d k \<and>
           filter (\<lambda>i. item_order i = k) (order_items d') = filter (\<lambda>i. item_order i = k) (order_items d))"
  proof (cases opr)
    case (AddItem sp q up)
    with assms(1) g pk obtain d1 item ord' where
      c: "OrderItem_create e d oid sp q up None = Inr (d1, item)"
      and t: "calculate_total e d1 ord = Inr (d', ord')"
      by (auto simp: apply_item_op_def order_add_item_def split: sum.splits)
    from OrderItem_create_items(1)[OF c] obtain it where
      it: "order_items d1 = order_items d @ [it]" "item_order it = oid"
          "item_pk it \<notin> set (map item_pk (order_items d))" by blast
    have i': "order_items d' = order_items d1" using t by (rule calculate_total_items)
    have "k \<noteq> oid \<Longrightarrow> get_order d' k = get_order d k"
      using calculate_total_other[OF t pk] OrderItem_create_items(2)[OF c] by simp
    then show ?thesis using i' it assms(2) by auto
  next
    case (RemoveItem i)
    with assms(1) g pk obtain item ord' where
      f: "find (\<lambda>r. item_pk r = Some i \<and> Some (item_order r) = Some oid) (order_items d) = Some item"
      and t: "calculate_total e (OrderItem_delete d item) ord = Inr (d', ord')"
      by (auto simp: apply_item_op_def order_remove_item_def split: sum.splits option.splits)
    have i': "order_items d' = filter (\<lambda>r. item_pk r \<noteq> item_pk item) (order_items d)"
      using calculate_total_items[OF t] by (simp add: OrderItem_delete_def)
    have "k \<noteq> oid \<Longrightarrow> get_order d' k = get_order d k"
      using calculate_total_other[OF t pk] by (simp add: OrderItem_delete_def get_order_def)
    then show ?thesis using i' filter_remove_other[OF assms(2) f] assms(2)
      by (auto simp: distinct_map_filter)
  qed
  then show "distinct (map item_pk (order_items d'))"
    and "k \<noteq> oid \<Longrightarrow> totals_consistent d k \<Longrightarrow> totals_consistent d' k"
    using totals_consistent_cong by blast+
qed

text \<open>
  Claim C1. After any sequence of add and remove operations that completes, each followed
  by the recomputation of the order's total, every order that an operation touched (and
  every order whose totals were right before) has \<open>total_amount\<close> equal to
  \<open>subtotal\<close>, both equal to the sum of \<open>total_price\<close> over its current items; an
  order left without items has both totals zero. Item primary keys are distinct, as
  primary keys are.
\<close>

theorem totals_invariant:
  assumes "apply_item_ops d ops = Inr d'" "distinct (map item_pk (order_items d))"
    and "k \<in> set (map (\<lambda>(e, oid, opr). oid) ops) \<or> totals_consistent d k"
  shows "\<exists>ord. get_order d' k = Some ord \<and> total_amount ord = subtotal ord
            \<and> subtotal ord = sum_list (map total_price (items_all d' ord))
            \<and> (items_all d' ord = [] \<longrightarrow> subtotal ord = 0 \<and> total_amount ord = 0)"
proof -
  have "(k \<in> set (map (\<lambda>(e, oid, opr). oid) ops) \<or> totals_consistent d k) \<longrightarrow> totals_consistent d' k"
    using assms(1,2)
  proof (induction ops arbitrary: d)
    case Nil
    then show ?case by simp
  next
    case (Cons x rest)
    obtain e oid opr where x: "x = (e, oid, opr)" by (cases x) auto
    from Cons.prems(1) x obtain d1 where
      s: "apply_item_op e d oid opr = Inr d1" and r: "apply_item_ops d1 rest = Inr d'"
      by (auto split: sum.splits)
    have dist: "distinct (map item_pk (order_items d1))"
      by (rule apply_item_op_frame(1)[OF s Cons.prems(2)])
    have c1: "k = oid \<or> totals_consistent d k \<Longrightarrow> totals_consistent d1 k"
      using apply_item_op_consistent[OF s] apply_item_op_frame(2)[OF s Cons.prems(2), of k] by (cases "k = oid") auto
    show ?case using Cons.IH[OF r dist] c1 x by auto
  qed
  then show ?thesis using assms(3) by (auto simp: totals_consistent_def split: option.splits)
qed

lemmas item_eval_defs = apply_item_op_def get_order_def order_add_item_def
  OrderItem_create_def OrderItem_save_def falsy_price_def get_service_price_def order_items_save_def
  next_pk_def calculate_total_def items_all_def Order_save_def orders_save_def order_remove_item_def
  OrderItem_delete_def Let_def

lemmas example_defs = db_items_def order1_with_def db0_def order1_def order2_def
  item_a_def item_b_def item_c_def

lemma example_step1: "apply_item_op env0 db0 1 (AddItem 1 2 None) = Inr (db_items 3198 [item_b])"
  by (simp add: item_eval_defs example_defs)

lemma example_step2:
  "apply_item_op env0 (db_items 3198 [item_b]) 1 (AddItem 2 1 None) = Inr (db_items 5748 [item_b, item_c])"
  by (simp add: item_eval_defs example_defs)

lemma example_step3:
  "apply_item_op env0 (db_items 5748 [item_b, item_c]) 1 (RemoveItem 2) = Inr (db_items 2550 [item_c])"
  by (simp add: item_eval_defs example_defs)

lemma example_step4:
  "apply_item_op env0 (db_items 2550 [item_c]) 1 (RemoveItem 3) = Inr (db_items 0 [])"
  by (simp add: item_eval_defs example_defs)

lemma example_run3:
  "apply_item_ops db0 [(env0, 1, AddItem 1 2 None), (env0, 1, AddItem 2 1 None), (env0, 1, RemoveItem 2)]
     = Inr (db_items 2550 [item_c])"
  by (simp only: apply_item_ops.simps example_step1 example_step2 example_step3 sum.case)

lemma example_run4:
  "apply_item_ops db0 [(env0, 1, AddItem 1 2 None), (env0, 1, AddItem 2 1 None), (env0, 1, RemoveItem 2),
       (env0, 1, RemoveItem 3)] = Inr (db_items 0 [])"
  by (simp only: apply_item_ops.simps example_step1 example_step2 example_step3 example_step4 sum.case)

theorem totals_invariant_witness:
  "(\<exists>ord. get_order (db_items 2550 [item_c]) 1 = Some ord \<and> subtotal ord = 2550 \<and> total_amount ord = 2550
       \<and> sum_list (map total_price (items_all (db_items 2550 [item_c]) ord)) = 2550)
   \<and> (\<exists>ord. get_order (db_items 0 []) 1 = Some ord \<and> items_all (db_items 0 []) ord = []
       \<and> subtotal ord = 0 \<and> total_amount ord = 0)
   \<and> (\<exists>ord. get_order (db_items 0 []) 2 = Some ord \<and> subtotal ord = 10000 \<and> total_amount ord = 10000
       \<and> sum_list (map total_price (items_all (db_items 0 []) ord)) = 10000)"
proof -
  have dist: "distinct (map item_pk (order_items db0))"
    by (simp add: example_defs)
  have c2: "totals_consistent db0 2"
    by (simp add: totals_consistent_def get_order_def items_all_def example_defs)
  have g1: "get_order (db_items 2550 [item_c]) 1 = Some (order1_with 2550)"
    and g2: "get_order (db_items 0 []) 1 = Some (order1_with 0)"
    and g3: "get_order (db_items 0 []) 2 = Some order2"
    by (simp_all add: get_order_def example_defs)
  have e: "items_all (db_items 0 []) (order1_with 0) = []"
    by (simp add: items_all_def example_defs)
  from totals_invariant[OF example_run3 dist, of 1] g1
  have a: "subtotal (order1_with 2550) = sum_list (map total_price (items_all (db_items 2550 [item_c]) (order1_with 2550)))"
    by simp
  from totals_invariant[OF example_run4 dist, of 1] g2 e
  have b: "subtotal (order1_with 0) = 0 \<and> total_amount (order1_with 0) = 0"
    by simp
  from totals_invariant[OF example_run4 dist, of 2] c2 g3
  have c: "total_amount order2 = subtotal order2
      \<and> subtotal order2 = sum_list (map total_price (items_all (db_items 0 []) order2))"
    by simp
  have v: "subtotal (order1_with 2550) = 2550" "total_amount (order1_with 2550) = 2550"
      "subtotal order2 = 10000"
    by (simp_all add: order1_with_def order2_def)
  show ?thesis using a b c v g1 g2 g3 e by simp
qed

section \<open>Proofs: loyalty ledger\<close>

lemma find_map_field:
  "(\<And>x. P (f x) = P x) \<Longrightarrow> find P (map (\<lambda>x. if Q x then f x else x) xs)
     = map_option (\<lambda>x. if Q x then f x else x) (find P xs)"
  by (induction xs) auto

lemma save_loyalty_points_profile:
  assumes "save_loyalty_points d self = Inr d'"
  shows "get_profile d' u = map_option (\<lambda>p. if cp_user p = cp_user self
             then p\<lparr>loyalty_points := loyalty_points self\<rparr> else p) (get_profile d u)"
    and "loyalty_transactions d' = loyalty_transactions d"
proof -
  from assms have d': "d' = d\<lparr>customer_profiles :=
      map (\<lambda>p. if cp_user p = cp_user self then p\<lparr>loyalty_points := loyalty_points self\<rparr> else p)
        (customer_profiles d)\<rparr>"
    by (auto simp: save_loyalty_points_def split: if_splits)
  show "get_profile d' u = map_option (\<lambda>p. if cp_user p = cp_user self
             then p\<lparr>loyalty_points := loyalty_points self\<rparr> else p) (get_profile d u)"
    unfolding get_profile_def d'
    using find_map_field[of "\<lambda>p. cp_user p = u" "\<lambda>p. p\<lparr>loyalty_points := loyalty_points self\<rparr>"
        "\<lambda>p. cp_user p = cp_user self" "customer_profiles d"]
    by simp
  show "loyalty_transactions d' = loyalty_transactions d" by (simp add: d')
qed

lemma get_profile_user: "get_profile d u = Some p \<Longrightarrow> cp_user p = u"
  by (auto simp: get_profile_def find_Some_iff)

lemma add_loyalty_points_effect:
  assumes "add_loyalty_points d self n descr = Inr (d', self')"
  shows "loyalty_points self' = loyalty_points self + n"
    and "loyalty_transactions d' = loyalty_transactions d @
           [\<lparr>lt_customer = cp_user self, lt_type = ''earned'', points = n, description = descr\<rparr>]"
    and "get_profile d' u = map_option (\<lambda>p. if cp_user p = cp_user self
             then p\<lparr>loyalty_points := loyalty_points self + n\<rparr> else p) (get_profile d u)"
proof -
  from assms obtain d1 where
    s: "save_loyalty_points d (self\<lparr>loyalty_points := loyalty_points self + n\<rparr>) = Inr d1"
    and d': "d' = d1\<lparr>loyalty_transactions := loyalty_transactions d1 @
        [\<lparr>lt_customer = cp_user self, lt_type = ''earned'', points = n, description = descr\<rparr>]\<rparr>"
    and self': "self' = self\<lparr>loyalty_points := loyalty_points self + n\<rparr>"
    by (auto simp: add_loyalty_points_def Let_def split: sum.splits)
  show "loyalty_points self' = loyalty_points self + n" by (simp add: self')
  show "loyalty_transactions d' = loyalty_transactions d @
           [\<lparr>lt_customer = cp_user self, lt_type = ''earned'', points = n, description = descr\<rparr>]"
    using save_loyalty_points_profile(2)[OF s] by (simp add: d')
  show "get_profile d' u = map_option (\<lambda>p. if cp_user p = cp_user self
             then p\<lparr>loyalty_points := loyalty_points self + n\<rparr> else p) (get_profile d u)"
    using save_loyalty_points_profile(1)[OF s, of u] by (simp add: d' get_profile_def cong: if_cong)
qed

lemma redeem_loyalty_points_effect:
  assumes "redeem_loyalty_points d self n descr = Inr (d', self', True)"
  shows "n \<le> loyalty_points self"
    and "loyalty_points self' = loyalty_points self - n"
    and "loyalty_transactions d' = loyalty_transactions d @
           [\<lparr>lt_customer = cp_user self, lt_type = ''redeemed'', points = - n, description = descr\<rparr>]"
    and "get_profile d' u = map_option (\<lambda>p. if cp_user p = cp_user self
             then p\<lparr>loyalty_points := loyalty_points self - n\<rparr> else p) (get_profile d u)"
proof -
  from assms have le: "n \<le> loyalty_points self"
    by (auto simp: redeem_loyalty_points_def split: if_splits)
  with assms obtain d1 where
    s: "save_loyalty_points d (self\<lparr>loyalty_points := loyalty_points self - n\<rparr>) = Inr d1"
    and d': "d' = d1\<lparr>loyalty_transactions := loyalty_transactions d1 @
        [\<lparr>lt_customer = cp_user self, lt_type = ''redeemed'', points = - n, description = descr\<rparr>]\<rparr>"
    and self': "self' = self\<lparr>loyalty_points := loyalty_points self - n\<rparr>"
    by (auto simp: redeem_loyalty_points_def Let_def split: sum.splits)
  show "n \<le> loyalty_points self" by (rule le)
  show "loyalty_points self' = loyalty_points self - n" by (simp add: self')
  show "loyalty_transactions d' = loyalty_transactions d @
           [\<lparr>lt_customer = cp_user self, lt_type = ''redeemed'', points = - n, description = descr\<rparr>]"
    using save_loyalty_points_profile(2)[OF s] by (simp add: d')
  show "get_profile d' u = map_option (\<lambda>p. if cp_user p = cp_user self
             then p\<lparr>loyalty_points := loyalty_points self - n\<rparr> else p) (get_profile d u)"
    using save_loyalty_points_profile(1)[OF s, of u] by (simp add: d' get_profile_def cong: if_cong)
qed

lemma redeem_loyalty_points_refused:
  "redeem_loyalty_points d self n descr = Inr (d', self', False) \<Longrightarrow>
     d' = d \<and> self' = self \<and> loyalty_points self < n"
  by (auto simp: redeem_loyalty_points_def Let_def split: if_splits sum.splits)

lemma ledger_sum_append:
  "loyalty_transactions d' = loyalty_transactions d @ [t] \<Longrightarrow>
   ledger_sum d' u = ledger_sum d u + (if lt_customer t = u then points t else 0)"
  by (simp add: ledger_sum_def)

lemma ledger_step:
  assumes gp: "get_profile d' u = map_option (\<lambda>p. if cp_user p = w
             then p\<lparr>loyalty_points := b\<rparr> else p) (get_profile d u)"
    and tr: "loyalty_transactions d' = loyalty_transactions d @ [t]"
    and tw: "lt_customer t = w"
    and gw: "get_profile d w = Some profile"
    and b: "b = loyalty_points profile + points t"
    and c: "balance_consistent d u"
  shows "balance_consistent d' u"
proof -
  from c obtain p where p: "get_profile d u = Some p" "loyalty_points p = ledger_sum d u"
    by (auto simp: balance_consistent_def split: option.splits)
  have cu: "cp_user p = u" using p(1) by (rule get_profile_user)
  have ls: "ledger_sum d' u = ledger_sum d u + (if w = u then points t else 0)"
    using ledger_sum_append[OF tr, of u] tw by simp
  show ?thesis
  proof (cases "u = w")
    case True
    then have "p = profile" using p(1) gw by simp
    then have "get_profile d' u = Some (profile\<lparr>loyalty_points := b\<rparr>)"
      using gp p(1) cu True by simp
    then show ?thesis using ls True b p(2) \<open>p = profile\<close>
      by (simp add: balance_consistent_def)
  next
    case False
    then have "get_profile d' u = Some p" using gp p(1) cu by simp
    then show ?thesis using ls False p(2) by (simp add: balance_consistent_def)
  qed
qed

lemma apply_loyalty_op_consistent:
  assumes "apply_loyalty_op d v opr = Inr d'" "balance_consistent d u"
  shows "balance_consistent d' u"
proof -
  from assms(1) obtain profile where g: "get_profile d v = Some profile"
    by (auto simp: apply_loyalty_op_def split: option.splits)
  then have pu: "cp_user profile = v" by (rule get_profile_user)
  show ?thesis
  proof (cases opr)
    case (Earn n)
    with assms(1) g obtain self' where
      a: "add_loyalty_points d profile n ''Points earned'' = Inr (d', self')"
      by (auto simp: apply_loyalty_op_def split: sum.splits)
    show ?thesis
      by (rule ledger_step[OF add_loyalty_points_effect(3)[OF a, unfolded pu]
            add_loyalty_points_effect(2)[OF a] _ g _ assms(2)]) (simp_all add: pu)
  next
    case (Redeem n)
    with assms(1) g obtain self' ok where
      r: "redeem_loyalty_points d profile n ''Points redeemed'' = Inr (d', self', ok)"
      by (auto simp: apply_loyalty_op_def split: sum.splits)
    show ?thesis
    proof (cases ok)
      case True
      from r True have r': "redeem_loyalty_points d profile n ''Points redeemed'' = Inr (d', self', True)" by simp
      show ?thesis
        by (rule ledger_step[OF redeem_loyalty_points_effect(4)[OF r', unfolded pu]
              redeem_loyalty_points_effect(3)[OF r'] _ g _ assms(2)]) (simp_all add: pu)
    next
      case False
      with r have "redeem_loyalty_points d profile n ''Points redeemed'' = Inr (d', self', False)" by simp
      from redeem_loyalty_points_refused[OF this] assms(2) show ?thesis by simp
    qed
  qed
qed

lemma apply_loyalty_ops_consistent:
  "apply_loyalty_ops d ops = Inr d' \<Longrightarrow> balance_consistent d u \<Longrightarrow> balance_consistent d' u"
proof (induction ops arbitrary: d)
  case Nil
  then show ?case by simp
next
  case (Cons x rest)
  obtain v opr where x: "x = (v, opr)" by (cases x)
  from Cons.prems(1) x obtain d1 where
    s: "apply_loyalty_op d v opr = Inr d1" and r: "apply_loyalty_ops d1 rest = Inr d'"
    by (auto split: sum.splits)
  show ?case by (rule Cons.IH[OF r apply_loyalty_op_consistent[OF s Cons.prems(2)]])
qed




text \<open>
  Claim C2. After any sequence of earn and redeem calls that completes, the cached balance
  of every customer whose cache matched the ledger before still equals the sum of the
  points of that customer's transactions. A successful earn adds \<open>points\<close> to the cache
  and appends one transaction of \<open>+points\<close>; a successful redeem subtracts \<open>points\<close>
  and appends one transaction of \<open>-points\<close>.
\<close>
theorem cached_balance_is_ledger_sum:
  assumes "apply_loyalty_ops d ops = Inr d'" and "balance_consistent d u"
    and "add_loyalty_points da sa na ta = Inr (da', sa')"
    and "redeem_loyalty_points dr sr nr tr = Inr (dr', sr', True)"
  shows "(\<exists>p. get_profile d' u = Some p \<and> loyalty_points p = ledger_sum d' u)
       \<and> loyalty_points sa' = loyalty_points sa + na
       \<and> loyalty_transactions da' = loyalty_transactions da @
            [\<lparr>lt_customer = cp_user sa, lt_type = ''earned'', points = na, description = ta\<rparr>]
       \<and> get_profile da' (cp_user sa) = map_option (\<lambda>p. p\<lparr>loyalty_points := loyalty_points sa + na\<rparr>)
            (get_profile da (cp_user sa))
       \<and> loyalty_points sr' = loyalty_points sr - nr
       \<and> loyalty_transactions dr' = loyalty_transactions dr @
            [\<lparr>lt_customer = cp_user sr, lt_type = ''redeemed'', points = - nr, description = tr\<rparr>]
       \<and> get_profile dr' (cp_user sr) = map_option (\<lambda>p. p\<lparr>loyalty_points := loyalty_points sr - nr\<rparr>)
            (get_profile dr (cp_user sr))"
proof -
  have "balance_consistent d' u" by (rule apply_loyalty_ops_consistent[OF assms(1,2)])
  then have a: "\<exists>p. get_profile d' u = Some p \<and> loyalty_points p = ledger_sum d' u"
    by (auto simp: balance_consistent_def split: option.splits)
  have b: "get_profile da' (cp_user sa) = map_option (\<lambda>p. p\<lparr>loyalty_points := loyalty_points sa + na\<rparr>)
            (get_profile da (cp_user sa))"
    using add_loyalty_points_effect(3)[OF assms(3), of "cp_user sa"]
    by (cases "get_profile da (cp_user sa)") (auto dest: get_profile_user)
  have c: "get_profile dr' (cp_user sr) = map_option (\<lambda>p. p\<lparr>loyalty_points := loyalty_points sr - nr\<rparr>)
            (get_profile dr (cp_user sr))"
    using redeem_loyalty_points_effect(4)[OF assms(4), of "cp_user sr"]
    by (cases "get_profile dr (cp_user sr)") (auto dest: get_profile_user)
  show ?thesis
    using a b c add_loyalty_points_effect(1,2)[OF assms(3)] redeem_loyalty_points_effect(2,3)[OF assms(4)]
    by simp
qed





lemmas loyalty_eval_defs = apply_loyalty_op_def get_profile_def add_loyalty_points_def
  redeem_loyalty_points_def save_loyalty_points_def Let_def

lemmas loyalty_example_defs = db_loyalty_def db0_def profile8_def txn0_def txn_def

lemma db0_loyalty: "db0 = db_loyalty 50 []"
  by (simp add: loyalty_example_defs)

lemma loyalty_step_earn:
  "apply_loyalty_op (db_loyalty 50 []) 8 (Earn 100) = Inr (db_loyalty 150 [txn ''earned'' 100])"
  by (simp add: loyalty_eval_defs loyalty_example_defs)

lemma loyalty_step_redeem:
  "apply_loyalty_op (db_loyalty 150 [txn ''earned'' 100]) 8 (Redeem 30)
     = Inr (db_loyalty 120 [txn ''earned'' 100, txn ''redeemed'' (- 30)])"
  by (simp add: loyalty_eval_defs loyalty_example_defs)

lemma loyalty_run_a:
  "apply_loyalty_ops (db_loyalty 50 []) [(8, Earn 100), (8, Redeem 30)]
     = Inr (db_loyalty 120 [txn ''earned'' 100, txn ''redeemed'' (- 30)])"
  by (simp only: apply_loyalty_ops.simps loyalty_step_earn loyalty_step_redeem sum.case)

lemma loyalty_consistent0: "balance_consistent (db_loyalty 50 []) 8"
  by (simp add: balance_consistent_def ledger_sum_def get_profile_def loyalty_example_defs)

lemma loyalty_call_earn:
  "add_loyalty_points (db_loyalty 50 []) profile8 100 ''Points earned''
     = Inr (db_loyalty 150 [txn ''earned'' 100], profile8\<lparr>loyalty_points := 150\<rparr>)"
  by (simp add: loyalty_eval_defs loyalty_example_defs)

lemma loyalty_call_redeem:
  "redeem_loyalty_points (db_loyalty 50 []) profile8 30 ''Points redeemed''
     = Inr (db_loyalty 20 [txn ''redeemed'' (- 30)], profile8\<lparr>loyalty_points := 20\<rparr>, True)"
  by (simp add: loyalty_eval_defs loyalty_example_defs)

theorem cached_balance_is_ledger_sum_witness:
  "get_profile (db_loyalty 120 [txn ''earned'' 100, txn ''redeemed'' (- 30)]) 8
      = Some (profile8\<lparr>loyalty_points := 120\<rparr>)
   \<and> ledger_sum (db_loyalty 120 [txn ''earned'' 100, txn ''redeemed'' (- 30)]) 8 = 120
   \<and> loyalty_points (profile8\<lparr>loyalty_points := 150\<rparr>) = loyalty_points profile8 + 100
   \<and> loyalty_transactions (db_loyalty 150 [txn ''earned'' 100]) = loyalty_transactions (db_loyalty 50 []) @
        [\<lparr>lt_customer = 8, lt_type = ''earned'', points = 100, description = ''Points earned''\<rparr>]
   \<and> loyalty_points (profile8\<lparr>loyalty_points := 20\<rparr>) = loyalty_points profile8 - 30
   \<and> loyalty_transactions (db_loyalty 20 [txn ''redeemed'' (- 30)]) = loyalty_transactions (db_loyalty 50 []) @
        [\<lparr>lt_customer = 8, lt_type = ''redeemed'', points = - 30, description = ''Points redeemed''\<rparr>]"
proof -
  have g: "get_profile (db_loyalty 120 [txn ''earned'' 100, txn ''redeemed'' (- 30)]) 8
      = Some (profile8\<lparr>loyalty_points := 120\<rparr>)"
    by (simp add: get_profile_def loyalty_example_defs)
  have u: "cp_user profile8 = 8" by (simp add: profile8_def)
  from cached_balance_is_ledger_sum[OF loyalty_run_a loyalty_consistent0 loyalty_call_earn loyalty_call_redeem]
  show ?thesis using g u by simp
qed






section \<open>Proofs: order numbers\<close>

lemma generated_number0: "generate_order_number 3 env0 = ''3789012345642''"
  by (simp add: generate_order_number_def env0_def str_nat.simps last10_def digit_char_def)

lemma generated_number1: "generate_order_number 3 (env0\<lparr>randint := 43\<rparr>) = ''3789012345643''"
  by (simp add: generate_order_number_def env0_def str_nat.simps last10_def digit_char_def)

text \<open>
  Claim C7, as stated, fails: \<^verbatim>\<open>Order.save\<close> generates the number once and hands the
  instance to the database. With the number of shop 3 at this clock reading and random
  suffix already stored, the save raises IntegrityError.
\<close>

theorem order_number_collision_counterexample:
  "Order_save env0 db_taken new_order = Inl IntegrityError"
  by (simp add: Order_save_def orders_save_def new_order_def generated_number0 db_taken_def db0_def
      order1_def order2_def)

text \<open>
  Claim C7, amended. Saving a new order without a number generates one number from the
  shop id, the clock and the random suffix, in a single attempt: if a stored order
  already holds that number the save fails with IntegrityError, which reaches the caller;
  otherwise the order is stored under that number.
\<close>

theorem Order_save_single_attempt:
  assumes "order_number self = []" and "order_pk self = None"
  shows "((\<exists>r \<in> set (orders d). order_number r = generate_order_number (shop self) e \<and> order_pk r \<noteq> None)
            \<longrightarrow> Order_save e d self = Inl IntegrityError)
       \<and> (\<not> (\<exists>r \<in> set (orders d). order_number r = generate_order_number (shop self) e \<and> order_pk r \<noteq> None)
            \<longrightarrow> (\<exists>k. Order_save e d self =
                  Inr (d\<lparr>orders := orders d @
                          [self\<lparr>order_number := generate_order_number (shop self) e, order_pk := Some k\<rparr>]\<rparr>,
                       self\<lparr>order_number := generate_order_number (shop self) e, order_pk := Some k\<rparr>)))"
  using assms by (auto simp: Order_save_def orders_save_def list_ex_iff Let_def)

theorem Order_save_single_attempt_witness:
  "Order_save env0 db_taken new_order = Inl IntegrityError
   \<and> Order_save (env0\<lparr>randint := 43\<rparr>) db_taken new_order =
       Inr (db_taken\<lparr>orders := orders db_taken @ [new_order\<lparr>order_number := ''3789012345643'', order_pk := Some 3\<rparr>]\<rparr>,
            new_order\<lparr>order_number := ''3789012345643'', order_pk := Some 3\<rparr>)"
proof -
  have a: "order_number new_order = []" "order_pk new_order = None" "shop new_order = 3"
    by (simp_all add: new_order_def)
  have c: "\<exists>r \<in> set (orders db_taken). order_number r = generate_order_number (shop new_order) env0 \<and> order_pk r \<noteq> None"
    by (simp add: a generated_number0 db_taken_def db0_def order1_def order2_def)
  have n: "\<not> (\<exists>r \<in> set (orders db_taken).
      order_number r = generate_order_number (shop new_order) (env0\<lparr>randint := 43\<rparr>) \<and> order_pk r \<noteq> None)"
    by (simp add: a generated_number1 db_taken_def db0_def order1_def order2_def)
  have s: "Order_save (env0\<lparr>randint := 43\<rparr>) db_taken new_order =
       Inr (db_taken\<lparr>orders := orders db_taken @ [new_order\<lparr>order_number := ''3789012345643'', order_pk := Some 3\<rparr>]\<rparr>,
            new_order\<lparr>order_number := ''3789012345643'', order_pk := Some 3\<rparr>)"
    by (simp add: Order_save_def orders_save_def new_order_def generated_number1 db_taken_def db0_def
        order1_def order2_def next_pk_def Let_def)
  from Order_save_single_attempt[OF a(1,2), of db_taken env0] c
  have "Order_save env0 db_taken new_order = Inl IntegrityError" by blast
  then show ?thesis using s by simp
qed

section \<open>Proofs: unit prices\<close>

lemma order_items_save_stored:
  "order_items_save d self = (d', self') \<Longrightarrow>
     self' \<in> set (order_items d') \<and> unit_price self' = unit_price self
     \<and> total_price self' = total_price self \<and> quantity self' = quantity self"
  by (auto simp: order_items_save_def Let_def list_ex_iff split: option.splits if_splits)

text \<open>
  Claim C9, amended. A save of an item without a unit price takes it from the referenced
  service price as it is then; a save of an item with a non-zero unit price keeps that
  unit price whatever the service price is; after every save \<open>total_price\<close> is
  \<open>unit_price\<close> times \<open>quantity\<close>, and the row is stored.
\<close>

theorem unit_price_kept_or_captured:
  assumes "OrderItem_save e d self = Inr (d', self')"
  shows "(unit_price self = None \<longrightarrow>
            (\<exists>sp. get_service_price d (service_price self) = Some sp \<and> unit_price self' = Some (price sp)))
       \<and> (\<forall>v. unit_price self = Some v \<and> v \<noteq> 0 \<longrightarrow> unit_price self' = Some v)
       \<and> (\<exists>u. unit_price self' = Some u \<and> total_price self' = u * int (quantity self))
       \<and> quantity self' = quantity self \<and> self' \<in> set (order_items d')"
proof -
  from assms obtain up d1 ord ord' where
    up: "(if falsy_price (unit_price self)
            then (case get_service_price d (service_price self) of
                    None \<Rightarrow> Inl DoesNotExist
                  | Some sp \<Rightarrow> Inr (price sp))
            else (case unit_price self of
                    None \<Rightarrow> Inl DoesNotExist
                  | Some v \<Rightarrow> Inr v)) = Inr up"
    and sv: "order_items_save d (self\<lparr>unit_price := Some up, total_price := up * int (quantity self)\<rparr>) = (d1, self')"
    and ct: "calculate_total e d1 ord = Inr (d', ord')"
    by (auto simp: OrderItem_save_def Let_def split: sum.splits prod.splits option.splits)
  from order_items_save_stored[OF sv] calculate_total_items[OF ct]
  have st: "self' \<in> set (order_items d')" "unit_price self' = Some up"
    "total_price self' = up * int (quantity self)" "quantity self' = quantity self"
    by simp_all
  have a: "unit_price self = None \<Longrightarrow>
      \<exists>sp. get_service_price d (service_price self) = Some sp \<and> up = price sp"
    using up by (auto simp: falsy_price_def split: option.splits)
  have b: "\<And>v. unit_price self = Some v \<Longrightarrow> v \<noteq> 0 \<Longrightarrow> up = v"
    using up by (auto simp: falsy_price_def split: option.splits)
  show ?thesis using st a b by auto
qed

lemmas example_defs2 = example_defs item_d_def item_z_def

lemma create_with_price:
  "OrderItem_create env0 db0 1 1 1 (Some 2550) None = Inr (db_items 2550 [item_d], item_d)"
  by (simp add: item_eval_defs example_defs2)

lemma save_zero_priced:
  "OrderItem_save env0 (db_items 0 [item_z 0]) (item_z 0) = Inr (db_items 1599 [item_z 1599], item_z 1599)"
  by (simp add: item_eval_defs example_defs2)

text \<open>
  Claim C9, as stated, fails twice. An item created with a unit price of 25.50 on a
  service price of 15.99 keeps 25.50 (as \<^verbatim>\<open>test_calculate_total_method\<close> does); and an
  item stored with a unit price of zero takes the current service price on its next save.
\<close>

theorem unit_price_counterexample:
  "get_service_price db0 1 = Some \<lparr>sp_pk = 1, sp_shop = 3, price = 1599\<rparr>
   \<and> OrderItem_create env0 db0 1 1 1 (Some 2550) None = Inr (db_items 2550 [item_d], item_d)
   \<and> unit_price item_d = Some 2550
   \<and> unit_price (item_z 0) = Some 0 \<and> total_price (item_z 0) = 0
   \<and> OrderItem_save env0 (db_items 0 [item_z 0]) (item_z 0) = Inr (db_items 1599 [item_z 1599], item_z 1599)
   \<and> unit_price (item_z 1599) = Some 1599 \<and> total_price (item_z 1599) = 1599"
  using create_with_price save_zero_priced
  by (simp add: get_service_price_def db0_def item_d_def item_z_def)

lemma create_without_price:
  "OrderItem_create env0 db0 1 1 2 None None = Inr (db_items 3198 [item_b], item_b)"
  by (simp add: item_eval_defs example_defs2 item_b_def)

lemma save_again_other_price:
  "OrderItem_save env0 ((db_items 3198 [item_b])\<lparr>service_prices := [\<lparr>sp_pk = 1, sp_shop = 3, price = 9900\<rparr>]\<rparr>) item_b
     = Inr ((db_items 3198 [item_b])\<lparr>service_prices := [\<lparr>sp_pk = 1, sp_shop = 3, price = 9900\<rparr>]\<rparr>, item_b)"
  by (simp add: item_eval_defs example_defs2 item_b_def)

theorem unit_price_kept_or_captured_witness:
  "unit_price item_b = Some 1599 \<and> total_price item_b = 1599 * int (quantity item_b)
   \<and> item_b \<in> set (order_items (db_items 3198 [item_b]))
   \<and> get_service_price ((db_items 3198 [item_b])\<lparr>service_prices := [\<lparr>sp_pk = 1, sp_shop = 3, price = 9900\<rparr>]\<rparr>) 1
        = Some \<lparr>sp_pk = 1, sp_shop = 3, price = 9900\<rparr>"
proof -
  let ?new = "\<lparr>item_pk = None, item_order = 1, service_price = 1, quantity = 2,
        unit_price = None, total_price = 0, item_notes = None\<rparr>"
  have c: "OrderItem_save env0 db0 ?new = Inr (db_items 3198 [item_b], item_b)"
    using create_without_price by (simp add: OrderItem_create_def)
  have q: "quantity item_b = 2" "unit_price item_b = Some 1599" by (simp_all add: item_b_def)
  from unit_price_kept_or_captured[OF c] have 1: "total_price item_b = 1599 * int (quantity item_b)"
    "item_b \<in> set (order_items (db_items 3198 [item_b]))"
    using q by auto
  from unit_price_kept_or_captured[OF save_again_other_price] q
  have 2: "unit_price item_b = Some 1599" by simp
  show ?thesis using 1 2 by (simp add: get_service_price_def)
qed

section \<open>Proofs: item views and status updates\<close>

lemmas status_eval_defs = update_def serializer_update_def Order_save_def orders_save_def Let_def

lemmas status_example_defs = to_completed_def completed_row_def order1_completed_def order2_completed_def
  db0_def order1_def order2_def env0_def

text \<open>
  Claim C6 at a pending order. The guard of both views is
  \<^verbatim>\<open>order.status not in ['received']\<close>, and \<open>received\<close> is not among the statuses of
  the model: the customer's own pending order refuses a new item, and refuses the removal
  of an item, with status 400 and the database unchanged.
\<close>

theorem pending_items_rejected:
  "add_order_item env0 db0 user7 1 \<lparr>service_price_id = 1, data_quantity = 2, data_notes = None\<rparr>
     = Inr (db0, Response (ErrorBody ''Cannot add items to orders that are in progress or completed'') 400)
   \<and> status order1 = ''pending''
   \<and> lookup_order (db_items 3198 [item_b]) user7 1 = Some (order1_with 3198)
   \<and> status (order1_with 3198) = ''pending''
   \<and> remove_order_item env0 (db_items 3198 [item_b]) user7 1 2
     = Inr (db_items 3198 [item_b],
            Response (ErrorBody ''Cannot remove items from orders that are in progress or completed'') 400)"
  by (simp add: add_order_item_def remove_order_item_def lookup_order_def user7_def db_items_def
      order1_with_def db0_def order1_def order2_def)

text \<open>
  Claim C4, as stated, fails: a pending order is moved to \<open>completed\<close> by the serializer
  and by the view, which answers 200.
\<close>

theorem pending_to_completed_counterexample:
  "status order1 = ''pending''
   \<and> update env0 db0 9 order1 to_completed
      = Inr (db0\<lparr>orders := [order1_completed, order2], status_history := [completed_row 1]\<rparr>, order1_completed)
   \<and> status_update_view env0 db0 owner9 1 to_completed
      = Inr (db0\<lparr>orders := [order1_completed, order2], status_history := [completed_row 1]\<rparr>,
             Response (OrderBody order1_completed) 200)"
  by (simp add: status_update_view_def CanUpdateOrders_def owner9_def STATUS_CHOICES_def
      status_eval_defs status_example_defs)

text \<open>
  Claim C3, as stated, fails: completing the in-progress order of 100.00 of customer 8
  leaves that customer's profile at 50 points and the ledger at its single transaction.
\<close>

theorem completion_credits_nothing_counterexample:
  "status order2 = ''in_progress'' \<and> total_amount order2 = 10000 \<and> customer order2 = 8
   \<and> get_profile db0 8 = Some profile8 \<and> loyalty_points profile8 = 50
   \<and> update env0 db0 9 order2 to_completed
      = Inr (db0\<lparr>orders := [order1, order2_completed], status_history := [completed_row 2]\<rparr>, order2_completed)
   \<and> get_profile (db0\<lparr>orders := [order1, order2_completed], status_history := [completed_row 2]\<rparr>) 8
      = Some profile8
   \<and> loyalty_transactions (db0\<lparr>orders := [order1, order2_completed], status_history := [completed_row 2]\<rparr>)
      = [txn0]"
  by (simp add: get_profile_def profile8_def status_eval_defs status_example_defs)

lemma orders_save_frame:
  "orders_save d self = Inr (d', self') \<Longrightarrow>
     customer_profiles d' = customer_profiles d \<and> loyalty_transactions d' = loyalty_transactions d
     \<and> status_history d' = status_history d \<and> order_items d' = order_items d"
  by (auto simp: orders_save_def Let_def split: if_splits option.splits)

lemma Order_save_frame:
  "Order_save e d self = Inr (d', self') \<Longrightarrow>
     customer_profiles d' = customer_profiles d \<and> loyalty_transactions d' = loyalty_transactions d
     \<and> status_history d' = status_history d \<and> order_items d' = order_items d"
  unfolding Order_save_def by (rule orders_save_frame)

lemma update_frame:
  assumes "update e d u instance v = Inr (d', inst')"
  shows "customer_profiles d' = customer_profiles d \<and> loyalty_transactions d' = loyalty_transactions d"
proof -
  from assms obtain d1 inst1 where
    s1: "serializer_update e d instance v = Inr (d1, inst1)"
    by (auto simp: update_def Let_def split: sum.splits)
  have f1: "customer_profiles d1 = customer_profiles d \<and> loyalty_transactions d1 = loyalty_transactions d"
    using s1 Order_save_frame by (auto simp: serializer_update_def Let_def)
  show ?thesis
  proof (cases "status instance \<noteq> (case new_status v of None \<Rightarrow> status instance | Some s \<Rightarrow> s)")
    case False
    then have "d' = d1" using assms s1 by (auto simp: update_def Let_def)
    then show ?thesis using f1 by simp
  next
    case True
    with assms s1 obtain d2 inst2 where
      s2: "Order_save e d2 inst2 = Inr (d', inst')"
      and d2: "customer_profiles d2 = customer_profiles d1" "loyalty_transactions d2 = loyalty_transactions d1"
      by (auto simp: update_def Let_def split: option.splits)
    from Order_save_frame[OF s2] d2 f1 show ?thesis by simp
  qed
qed

lemma orders_save_stored_succeeds:
  assumes "order_pk self = Some k"
    and "\<not> list_ex (\<lambda>r. order_number r = order_number self \<and> order_pk r \<noteq> Some k) (orders d)"
  shows "\<exists>d'. orders_save d self = Inr (d', self) \<and> get_order d' k = Some self
           \<and> status_history d' = status_history d
           \<and> \<not> list_ex (\<lambda>r. order_number r = order_number self \<and> order_pk r \<noteq> Some k) (orders d')"
proof (cases "list_ex (\<lambda>r. order_pk r = Some k) (orders d)")
  case True
  let ?d' = "d\<lparr>orders := map (\<lambda>r. if order_pk r = Some k then self else r) (orders d)\<rparr>"
  have "orders_save d self = Inr (?d', self)"
    using assms True by (simp add: orders_save_def)
  moreover have "get_order ?d' k = Some self"
    using find_map_replace[of "\<lambda>r. order_pk r = Some k" self "orders d"] assms(1) True
    by (simp add: get_order_def)
  moreover have "\<not> list_ex (\<lambda>r. order_number r = order_number self \<and> order_pk r \<noteq> Some k) (orders ?d')"
    using assms by (auto simp: list_ex_iff)
  ultimately show ?thesis by auto
next
  case False
  let ?d' = "d\<lparr>orders := orders d @ [self]\<rparr>"
  have "orders_save d self = Inr (?d', self)"
    using assms False by (simp add: orders_save_def)
  moreover have "get_order ?d' k = Some self"
    using find_append_new[of "\<lambda>r. order_pk r = Some k" self "orders d"] assms(1) False
    by (simp add: get_order_def)
  moreover have "\<not> list_ex (\<lambda>r. order_number r = order_number self \<and> order_pk r \<noteq> Some k) (orders ?d')"
    using assms by (auto simp: list_ex_iff)
  ultimately show ?thesis by auto
qed

lemma Order_save_stored_succeeds:
  assumes "order_pk self = Some k" and "order_number self \<noteq> []"
    and "\<not> list_ex (\<lambda>r. order_number r = order_number self \<and> order_pk r \<noteq> Some k) (orders d)"
  shows "\<exists>d'. Order_save e d self = Inr (d', self) \<and> get_order d' k = Some self
           \<and> status_history d' = status_history d
           \<and> \<not> list_ex (\<lambda>r. order_number r = order_number self \<and> order_pk r \<noteq> Some k) (orders d')"
  using orders_save_stored_succeeds[OF assms(1,3)] assms(2) by (simp add: Order_save_def)

lemma update_effect:
  assumes "order_pk instance = Some k" and "order_number instance \<noteq> []"
    and "\<not> list_ex (\<lambda>r. order_number r = order_number instance \<and> order_pk r \<noteq> Some k) (orders d)"
    and "new_status v = Some s"
  shows "\<exists>d' inst'. update e d u instance v = Inr (d', inst') \<and> status inst' = s
           \<and> get_order d' k = Some inst'
           \<and> (s \<noteq> status instance \<longrightarrow>
                 status_history d' = status_history d @
                   [\<lparr>h_order = k, h_status = s, changed_by = u, changed_at = now e,
                     h_notes = (case new_notes v of None \<Rightarrow> [] | Some n \<Rightarrow> n)\<rparr>]
                 \<and> (s = ''completed'' \<longrightarrow> completed_at inst' = Some (now e))
                 \<and> (s = ''confirmed'' \<longrightarrow> confirmed_at inst' = Some (now e)))
           \<and> (s = status instance \<longrightarrow> status_history d' = status_history d)"
proof -
  let ?i1 = "instance\<lparr>status := s\<rparr>"
  let ?i2 = "case new_estimated_completion v of None \<Rightarrow> ?i1 | Some t \<Rightarrow> ?i1\<lparr>estimated_completion := t\<rparr>"
  have i2: "order_pk ?i2 = Some k" "order_number ?i2 = order_number instance" "status ?i2 = s"
    "completed_at ?i2 = completed_at instance"
    using assms(1) by (simp_all split: option.splits)
  have su: "serializer_update e d instance v = Order_save e d ?i2"
    using assms(4) by (simp add: serializer_update_def Let_def)
  from Order_save_stored_succeeds[of ?i2 k d e] i2 assms(2,3) obtain d1 where
    d1: "Order_save e d ?i2 = Inr (d1, ?i2)" "get_order d1 k = Some ?i2"
      "status_history d1 = status_history d"
      "\<not> list_ex (\<lambda>r. order_number r = order_number instance \<and> order_pk r \<noteq> Some k) (orders d1)"
    by auto
  show ?thesis
  proof (cases "s = status instance")
    case True
    then have "update e d u instance v = Inr (d1, ?i2)"
      using assms(4) su d1(1) by (simp add: update_def Let_def)
    then show ?thesis using d1 i2 True by auto
  next
    case False
    let ?h = "\<lparr>h_order = k, h_status = s, changed_by = u, changed_at = now e,
                     h_notes = (case new_notes v of None \<Rightarrow> [] | Some n \<Rightarrow> n)\<rparr>"
    let ?d2 = "d1\<lparr>status_history := status_history d1 @ [?h]\<rparr>"
    let ?i3 = "if s = ''confirmed'' then ?i2\<lparr>confirmed_at := Some (now e)\<rparr>
               else if s = ''completed'' then ?i2\<lparr>completed_at := Some (now e)\<rparr> else ?i2"
    have i3: "order_pk ?i3 = Some k" "order_number ?i3 = order_number instance" "status ?i3 = s"
      using i2 by simp_all
    have up: "update e d u instance v = Order_save e ?d2 ?i3"
      using assms(4) su d1(1) i2(1) False by (simp add: update_def Let_def)
    from Order_save_stored_succeeds[of ?i3 k ?d2 e] i3 assms(2) d1(4) obtain d3 where
      d3: "Order_save e ?d2 ?i3 = Inr (d3, ?i3)" "get_order d3 k = Some ?i3"
        "status_history d3 = status_history ?d2"
      by auto
    have st: "s = ''completed'' \<Longrightarrow> completed_at ?i3 = Some (now e)"
      "s = ''confirmed'' \<Longrightarrow> confirmed_at ?i3 = Some (now e)"
      by simp_all
    show ?thesis
      apply (rule exI[of _ d3], rule exI[of _ ?i3])
      using up d3 i3 st False d1(3) by simp
  qed
qed

text \<open>
  Claim C3, amended. A status update leaves every customer profile (balance, cumulative
  spend, tier) and the loyalty transactions as they were. In particular the update that
  moves a stored order into \<open>completed\<close> succeeds, stores the order with the new status
  and with \<open>completed_at\<close> stamped, appends the history row, and credits nothing.
\<close>

theorem status_update_leaves_loyalty:
  assumes "update e0 d0 u0 i0 v0 = Inr (d0', i0')"
    and "order_pk instance = Some k" and "order_number instance \<noteq> []"
    and "\<not> list_ex (\<lambda>r. order_number r = order_number instance \<and> order_pk r \<noteq> Some k) (orders d)"
    and "new_status v = Some ''completed''" and "status instance \<noteq> ''completed''"
  shows "customer_profiles d0' = customer_profiles d0 \<and> loyalty_transactions d0' = loyalty_transactions d0
       \<and> (\<exists>d' inst'. update e d u instance v = Inr (d', inst') \<and> status inst' = ''completed''
             \<and> completed_at inst' = Some (now e) \<and> get_order d' k = Some inst'
             \<and> status_history d' = status_history d @
                  [\<lparr>h_order = k, h_status = ''completed'', changed_by = u, changed_at = now e,
                    h_notes = (case new_notes v of None \<Rightarrow> [] | Some n \<Rightarrow> n)\<rparr>]
             \<and> customer_profiles d' = customer_profiles d
             \<and> loyalty_transactions d' = loyalty_transactions d)"
proof -
  from update_effect[OF assms(2,3,4,5), of e u] assms(6) obtain d' inst' where
    r: "update e d u instance v = Inr (d', inst')" "status inst' = ''completed''"
       "get_order d' k = Some inst'" "completed_at inst' = Some (now e)"
       "status_history d' = status_history d @
                  [\<lparr>h_order = k, h_status = ''completed'', changed_by = u, changed_at = now e,
                    h_notes = (case new_notes v of None \<Rightarrow> [] | Some n \<Rightarrow> n)\<rparr>]"
    by auto
  from update_frame[OF r(1)] update_frame[OF assms(1)] r show ?thesis by auto
qed

theorem status_update_leaves_loyalty_witness:
  "customer_profiles (db0\<lparr>orders := [order1, order2_completed], status_history := [completed_row 2]\<rparr>)
      = customer_profiles db0
   \<and> loyalty_transactions (db0\<lparr>orders := [order1, order2_completed], status_history := [completed_row 2]\<rparr>)
      = loyalty_transactions db0
   \<and> (\<exists>d' inst'. update env0 db0 9 order2 to_completed = Inr (d', inst') \<and> status inst' = ''completed''
         \<and> completed_at inst' = Some 1000 \<and> get_order d' 2 = Some inst'
         \<and> status_history d' = [completed_row 2]
         \<and> customer_profiles d' = [profile8] \<and> loyalty_transactions d' = [txn0])"
proof -
  have ev: "update env0 db0 9 order2 to_completed
      = Inr (db0\<lparr>orders := [order1, order2_completed], status_history := [completed_row 2]\<rparr>, order2_completed)"
    by (simp add: status_eval_defs status_example_defs)
  have pk: "order_pk order2 = Some 2" "order_number order2 \<noteq> []" "status order2 \<noteq> ''completed''"
    by (simp_all add: order2_def)
  have nc: "\<not> list_ex (\<lambda>r. order_number r = order_number order2 \<and> order_pk r \<noteq> Some 2) (orders db0)"
    by (simp add: db0_def order1_def order2_def)
  have ns: "new_status to_completed = Some ''completed''" by (simp add: to_completed_def)
  have h: "status_history db0 = []" "now env0 = 1000" "customer_profiles db0 = [profile8]"
    "loyalty_transactions db0 = [txn0]" "new_notes to_completed = None"
    by (simp_all add: db0_def env0_def to_completed_def)
  from status_update_leaves_loyalty[OF ev pk(1,2) nc ns pk(3), of env0 9]
  show ?thesis using h by (simp add: completed_row_def)
qed

text \<open>
  Claim C4, amended. For a stored order, a status update to any new status succeeds
  whatever the current status is: the order is stored with the new status; when the new
  status differs from the old one a history row is appended, and \<open>completed_at\<close>
  (\<open>confirmed_at\<close>) is stamped on entering \<open>completed\<close> (\<open>confirmed\<close>); when it is
  the same no history row is written.
\<close>

theorem status_update_any_choice:
  assumes "order_pk instance = Some k" and "order_number instance \<noteq> []"
    and "\<not> list_ex (\<lambda>r. order_number r = order_number instance \<and> order_pk r \<noteq> Some k) (orders d)"
    and "new_status v = Some s"
  shows "\<exists>d' inst'. update e d u instance v = Inr (d', inst') \<and> status inst' = s
           \<and> get_order d' k = Some inst'
           \<and> (s \<noteq> status instance \<longrightarrow>
                 status_history d' = status_history d @
                   [\<lparr>h_order = k, h_status = s, changed_by = u, changed_at = now e,
                     h_notes = (case new_notes v of None \<Rightarrow> [] | Some n \<Rightarrow> n)\<rparr>]
                 \<and> (s = ''completed'' \<longrightarrow> completed_at inst' = Some (now e))
                 \<and> (s = ''confirmed'' \<longrightarrow> confirmed_at inst' = Some (now e)))
           \<and> (s = status instance \<longrightarrow> status_history d' = status_history d)"
  by (rule update_effect[OF assms])

theorem status_update_any_choice_witness:
  "(\<exists>d' inst'. update env0 db0 9 order1 to_completed = Inr (d', inst') \<and> status inst' = ''completed''
       \<and> get_order d' 1 = Some inst' \<and> completed_at inst' = Some 1000
       \<and> status_history d' = [completed_row 1])
   \<and> (\<exists>d' inst'. update env0 db0 9 (order1\<lparr>status := ''ready''\<rparr>) to_completed = Inr (d', inst')
       \<and> status inst' = ''completed'' \<and> completed_at inst' = Some 1000)
   \<and> (\<exists>d' inst'. update env0 db0 9 order1 (to_completed\<lparr>new_status := Some ''confirmed''\<rparr>) = Inr (d', inst')
       \<and> status inst' = ''confirmed'' \<and> confirmed_at inst' = Some 1000)
   \<and> (\<exists>d' inst'. update env0 db0 9 order1 (to_completed\<lparr>new_status := Some ''pending''\<rparr>) = Inr (d', inst')
       \<and> status inst' = ''pending'' \<and> status_history d' = [])"
proof -
  have pk: "order_pk order1 = Some 1" "order_number order1 \<noteq> []" "status order1 = ''pending''"
    by (simp_all add: order1_def)
  have nc: "\<not> list_ex (\<lambda>r. order_number r = order_number order1 \<and> order_pk r \<noteq> Some 1) (orders db0)"
    by (simp add: db0_def order1_def order2_def)
  have h: "status_history db0 = []" "now env0 = 1000"
    by (simp_all add: db0_def env0_def)
  have a: "\<exists>d' inst'. update env0 db0 9 order1 to_completed = Inr (d', inst') \<and> status inst' = ''completed''
       \<and> get_order d' 1 = Some inst' \<and> completed_at inst' = Some 1000
       \<and> status_history d' = [completed_row 1]"
    using status_update_any_choice[of order1 1 db0 to_completed "''completed''" env0 9] pk nc h
    by (auto simp: to_completed_def completed_row_def)
  have b: "\<exists>d' inst'. update env0 db0 9 (order1\<lparr>status := ''ready''\<rparr>) to_completed = Inr (d', inst')
       \<and> status inst' = ''completed'' \<and> completed_at inst' = Some 1000"
    using status_update_any_choice[of "order1\<lparr>status := ''ready''\<rparr>" 1 db0 to_completed "''completed''" env0 9]
      pk nc h
    by (auto simp: to_completed_def)
  have c: "\<exists>d' inst'. update env0 db0 9 order1 (to_completed\<lparr>new_status := Some ''confirmed''\<rparr>) = Inr (d', inst')
       \<and> status inst' = ''confirmed'' \<and> confirmed_at inst' = Some 1000"
    using status_update_any_choice[of order1 1 db0 "to_completed\<lparr>new_status := Some ''confirmed''\<rparr>"
        "''confirmed''" env0 9] pk nc h
    by (auto simp: to_completed_def)
  have d: "\<exists>d' inst'. update env0 db0 9 order1 (to_completed\<lparr>new_status := Some ''pending''\<rparr>) = Inr (d', inst')
       \<and> status inst' = ''pending'' \<and> status_history d' = []"
    using status_update_any_choice[of order1 1 db0 "to_completed\<lparr>new_status := Some ''pending''\<rparr>"
        "''pending''" env0 9] pk nc h
    by (auto simp: to_completed_def)
  show ?thesis using a b c d by blast
qed

section \<open>Proofs: notifications\<close>

lemma should_send_default: "should_send_notification (default_preference u) ty"
  by (simp add: should_send_notification_def default_preference_def)

lemma should_send_welcome: "should_send_notification prefs ''welcome''"
  by (simp add: should_send_notification_def)

lemma should_send_promotion:
  "should_send_notification prefs ''promotion'' = promotion_notifications prefs"
  by (simp add: should_send_notification_def)

lemma find_append_one:
  "find P (xs @ [y]) = (case find P xs of Some x \<Rightarrow> Some x | None \<Rightarrow> if P y then Some y else None)"
  by (induction xs) auto

lemma gated_after_default:
  assumes "find (\<lambda>p. np_user p = u) (notification_preferences d) = None"
  shows "gated (d\<lparr>notification_preferences := notification_preferences d @ [default_preference u]\<rparr>) t v
           = gated d t v"
proof (cases "find (\<lambda>p. np_user p = v) (notification_preferences d)")
  case None
  then show ?thesis
    by (simp add: gated_def find_append_one should_send_default)
next
  case (Some p)
  then show ?thesis
    by (simp add: gated_def find_append_one)
qed

lemma get_user_preferences_existing:
  assumes "u \<in> set (users d)"
  shows "\<exists>d1 prefs. get_user_preferences d u = Inr (d1, prefs) \<and> users d1 = users d
      \<and> notifications d1 = notifications d
      \<and> (gated d t u \<longleftrightarrow> \<not> should_send_notification prefs (nt_type t))
      \<and> (\<forall>v. gated d1 t v = gated d t v)"
proof (cases "find (\<lambda>p. np_user p = u) (notification_preferences d)")
  case None
  have "get_user_preferences d u =
      Inr (d\<lparr>notification_preferences := notification_preferences d @ [default_preference u]\<rparr>,
           default_preference u)"
    using None assms by (simp add: get_user_preferences_def)
  moreover have "\<not> gated d t u" using None by (simp add: gated_def)
  ultimately show ?thesis
    using gated_after_default[OF None] should_send_default by simp
next
  case (Some p)
  have "get_user_preferences d u = Inr (d, p)"
    using Some by (simp add: get_user_preferences_def)
  moreover have "gated d t u \<longleftrightarrow> \<not> should_send_notification p (nt_type t)"
    using Some by (simp add: gated_def)
  ultimately show ?thesis by simp
qed

lemma create_notification_existing:
  assumes "u \<in> set (users d)"
    and "create_notification L d u ttl msg prio ord shp (Some t) dat ex = (d', res)"
  shows "(res = None \<longleftrightarrow> gated d t u) \<and> users d' = users d \<and> (\<forall>v. gated d' t v = gated d t v)
       \<and> (gated d t u \<longrightarrow> notifications d' = notifications d)
       \<and> (\<not> gated d t u \<longrightarrow> (\<exists>n. res = Some n \<and> notifications d' = notifications d @ [n]
              \<and> recipient n = u \<and> n_template n = Some (nt_name t)))"
proof -
  from get_user_preferences_existing[OF assms(1), of t] obtain d1 prefs where
    g: "get_user_preferences d u = Inr (d1, prefs)" "users d1 = users d"
       "notifications d1 = notifications d"
       "gated d t u \<longleftrightarrow> \<not> should_send_notification prefs (nt_type t)"
       "\<forall>v. gated d1 t v = gated d t v"
    by blast
  show ?thesis
  proof (cases "gated d t u")
    case True
    then have "d' = d1" "res = None" using assms(2) g(1,4) by (simp_all add: create_notification_def)
    then show ?thesis using g True by simp
  next
    case False
    let ?n = "\<lparr>n_pk = None, recipient = u, title = take 200 (strip_tags L ttl),
                         message = strip_tags L msg, priority = prio, n_status = ''unread'',
                         n_order = ord, n_shop = shp, n_template = Some (nt_name t),
                         n_data = (case dat of None \<Rightarrow> [] | Some c \<Rightarrow> c), expires_at = ex\<rparr>"
    let ?n' = "?n\<lparr>n_pk := Some (next_pk (map n_pk (notifications d1)))\<rparr>"
    let ?d2 = "d1\<lparr>notifications := notifications d1 @ [?n']\<rparr>"
    have u1: "u \<in> set (users d1)" using assms(1) g(2) by simp
    have nc: "notifications_create d1 ?n = Inr (?d2, ?n')"
      using u1 by (simp add: notifications_create_def Let_def)
    have "create_notification L d u ttl msg prio ord shp (Some t) dat ex = (?d2, Some ?n')"
      using g(1,4) False nc by (simp add: create_notification_def)
    with assms(2) have r: "d' = ?d2" "res = Some ?n'" by simp_all
    have "\<forall>v. gated ?d2 t v = gated d1 t v" by (simp add: gated_def)
    then show ?thesis using r g False by simp
  qed
qed

lemma create_notification_failure:
  "get_user_preferences d u = Inl err \<Longrightarrow>
     create_notification L d u ttl msg prio ord shp template dat ex = (d, None)"
  by (simp add: create_notification_def)






lemma get_template_name: "get_template d name = Some t \<Longrightarrow> nt_name t = name"
  by (auto simp: get_template_def find_Some_iff)

lemma create_notification_gated:
  assumes "gated d t u"
  shows "create_notification L d u ttl msg prio ord shp (Some t) dat ex = (d, None)"
proof -
  from assms obtain p where p: "find (\<lambda>p. np_user p = u) (notification_preferences d) = Some p"
    "\<not> should_send_notification p (nt_type t)"
    by (auto simp: gated_def split: option.splits)
  then have "get_user_preferences d u = Inr (d, p)" by (simp add: get_user_preferences_def)
  then show ?thesis using p(2) by (simp add: create_notification_def)
qed

text \<open>
  Claim C8. From an active template of type \<open>promotion\<close>, for a recipient whose stored
  preference \<open>promotion_notifications\<close> is false, \<^verbatim>\<open>create_from_template\<close> returns None
  and leaves the database as it was; from an active template of type \<open>welcome\<close>, for
  any existing user and whatever the preferences are, it returns the notification, which
  is the one new row of the notification table.
\<close>

theorem promotion_gated_welcome_always:
  assumes "get_template d name = Some t"
  shows "(nt_type t = ''promotion''
            \<and> (\<exists>p. find (\<lambda>p. np_user p = rcp) (notification_preferences d) = Some p
                   \<and> \<not> promotion_notifications p)
            \<longrightarrow> create_from_template L d name rcp c ord shp ex = (d, None))
       \<and> (nt_type t = ''welcome'' \<and> rcp \<in> set (users d)
            \<longrightarrow> (\<exists>d' n. create_from_template L d name rcp c ord shp ex = (d', Some n)
                  \<and> notifications d' = notifications d @ [n] \<and> recipient n = rcp
                  \<and> n_template n = Some name))"
proof (intro conjI impI)
  assume a: "nt_type t = ''promotion''
            \<and> (\<exists>p. find (\<lambda>p. np_user p = rcp) (notification_preferences d) = Some p
                   \<and> \<not> promotion_notifications p)"
  then have "gated d t rcp" by (auto simp: gated_def should_send_promotion)
  from create_notification_gated[OF this] show "create_from_template L d name rcp c ord shp ex = (d, None)"
    using assms by (simp add: create_from_template_def)
next
  assume a: "nt_type t = ''welcome'' \<and> rcp \<in> set (users d)"
  then have ng: "\<not> gated d t rcp" by (simp add: gated_def should_send_welcome split: option.splits)
  obtain d' res where
    c: "create_notification L d rcp (render L (title_template t) c) (render L (message_template t) c)
          (nt_priority t) ord shp (Some t) (Some c) ex = (d', res)"
    by (cases "create_notification L d rcp (render L (title_template t) c) (render L (message_template t) c)
          (nt_priority t) ord shp (Some t) (Some c) ex")
  from create_notification_existing[OF _ c] a ng obtain n where
    "res = Some n" "notifications d' = notifications d @ [n]" "recipient n = rcp"
    "n_template n = Some (nt_name t)" by auto
  then show "\<exists>d' n. create_from_template L d name rcp c ord shp ex = (d', Some n)
                  \<and> notifications d' = notifications d @ [n] \<and> recipient n = rcp
                  \<and> n_template n = Some name"
    using c assms get_template_name[OF assms] by (simp add: create_from_template_def)
qed

theorem promotion_gated_welcome_always_witness:
  "create_from_template lib0 db0 ''spring_sale'' 8 [] None None None = (db0, None)
   \<and> (\<exists>d' n. create_from_template lib0 db0 ''welcome_user'' 8 [] None None None = (d', Some n)
         \<and> notifications d' = notifications db0 @ [n] \<and> recipient n = 8
         \<and> n_template n = Some ''welcome_user'')"
proof -
  have t1: "get_template db0 ''spring_sale'' = Some promo_template"
    and t2: "get_template db0 ''welcome_user'' = Some welcome_template"
    by (simp_all add: get_template_def db0_def promo_template_def welcome_template_def)
  have p: "nt_type promo_template = ''promotion''
       \<and> (\<exists>p. find (\<lambda>p. np_user p = 8) (notification_preferences db0) = Some p \<and> \<not> promotion_notifications p)"
    by (simp add: db0_def promo_template_def prefs8_def)
  have w: "nt_type welcome_template = ''welcome'' \<and> 8 \<in> set (users db0)"
    by (simp add: db0_def welcome_template_def)
  from promotion_gated_welcome_always[OF t1, of 8 lib0 "[]" None None None] p
  have a: "create_from_template lib0 db0 ''spring_sale'' 8 [] None None None = (db0, None)" by blast
  from promotion_gated_welcome_always[OF t2, of 8 lib0 "[]" None None None] w
  have b: "\<exists>d' n. create_from_template lib0 db0 ''welcome_user'' 8 [] None None None = (d', Some n)
         \<and> notifications d' = notifications db0 @ [n] \<and> recipient n = 8
         \<and> n_template n = Some ''welcome_user''" by blast
  show ?thesis using a b by simp
qed








lemma gated_batches: "gated (d\<lparr>notification_batches := X\<rparr>) t u = gated d t u"
  by (simp add: gated_def)






end
